theory Spec2Isabelle
  imports Main "HOL-Library.Word"
begin

unbundle bit_operations_syntax

section \<open>Data model of pkg/cvo/cvo.go\<close>

text \<open>
  The work key is a Go string. The cluster identifier is Go's \<open>[16]byte\<close>, here a list of
  bytes (sixteen of them in every identifier the generator hands out).
\<close>

type_synonym key = string
type_synonym UUID = "8 word list"

datatype Variant = Invalid | RFC4122 | Reserved | Microsoft | Future

text \<open>
  Go's \<open>error\<close> interface: \<open>None\<close> is \<open>nil\<close>. The two errors built by \<open>getConfig\<close> keep
  their format string and arguments; every other error comes from a collaborator and is opaque.
\<close>

datatype fmt_arg = ArgVariant Variant | ArgVersion "8 word"

datatype error = Errorf string UUID fmt_arg | Opaque string

record CVOConfig =
  Namespace :: string
  Name :: string
  Upstream :: string
  Channel :: string
  ClusterID :: UUID

datatype OperatorStatusConditionType = Working | Done | Degraded

datatype message = Sprintf string "CVOConfig option"

record OperatorStatusCondition =
  cond_Type :: OperatorStatusConditionType
  cond_Message :: message

datatype log_line =
    StartedSyncing key
  | FinishedSyncing key
  | ErrorSyncing key error
  | DroppingOperator key "error option"

text \<open>What a call of the sync handler does: it returns an error value, or it panics.\<close>

datatype handler_outcome = Returns "error option" | Panics

text \<open>
  Every call that leaves \<open>cvo.go\<close>, and the call of \<open>getConfig\<close> by \<open>sync\<close>, is recorded,
  in the order the calls return, with its arguments and what it returned. \<open>'p\<close> is the
  payload type, which \<open>cvo.go\<close> never inspects.
\<close>

datatype 'p event =
    QueueAdd key
  | QueueGet key bool
  | QueueDone key
  | QueueForget key
  | QueueNumRequeues key int
  | QueueAddRateLimited key
  | Glog nat log_line
  | CallHandleError "error option"
  | CallSyncHandler key handler_outcome
  | CallSyncDegradedStatus "error option" "error option"
  | CallSyncCVOCRDs "error option"
  | CallNewRandom UUID "error option"
  | CallApplyCVOConfigFromCache CVOConfig "CVOConfig option" "error option"
  | CallGetConfig "CVOConfig option" "error option"
  | CallSyncStatus "CVOConfig option" OperatorStatusCondition "error option"
  | CallSyncUpdatePayloadContents string "CVOConfig option" "'p option" "error option"
  | CallSyncUpdatePayload "CVOConfig option" "'p option" "error option"

text \<open>
  The state threaded through the operator: the world outside \<open>cvo.go\<close> (the queue, the
  cluster, the caches), of any type \<open>'w\<close>, and the record of calls made so far.
\<close>

record ('w, 'p) exec =
  world :: 'w
  trace :: "'p event list"

text \<open>
  \<open>workqueue.RateLimitingInterface\<close>: the operator only knows the queue by its methods.
  \<open>Get\<close> blocks while there is nothing to hand out: \<open>None\<close> is a call that does not return
  in this world.
\<close>

record 'w RateLimitingInterface =
  q_Add :: "key \<Rightarrow> 'w \<Rightarrow> 'w"
  q_Get :: "'w \<Rightarrow> ((key \<times> bool) \<times> 'w) option"
  q_Done :: "key \<Rightarrow> 'w \<Rightarrow> 'w"
  q_Forget :: "key \<Rightarrow> 'w \<Rightarrow> 'w"
  q_NumRequeues :: "key \<Rightarrow> 'w \<Rightarrow> int \<times> 'w"
  q_AddRateLimited :: "key \<Rightarrow> 'w \<Rightarrow> 'w"

text \<open>The fields of \<open>Operator\<close> that \<open>cvo.go\<close> reads.\<close>

record 'w Operator =
  namespace :: string
  name :: string
  syncHandler :: "key \<Rightarrow> 'w \<Rightarrow> handler_outcome \<times> 'w"
  queue :: "'w RateLimitingInterface"

text \<open>
  Functions and constants that \<open>cvo.go\<close> uses and that are declared elsewhere (other files of
  the package, \<open>resourceapply\<close>, \<open>uuid\<close>, \<open>utilruntime\<close>): they are parameters of the model,
  each one any function of its arguments and the world. \<open>ApplyCVOConfigFromCache\<close> also
  returns whether it changed anything, which \<open>getConfig\<close> drops.
\<close>

record ('w, 'p) collaborators =
  ext_syncCVOCRDs :: "'w \<Rightarrow> error option \<times> 'w"
  ext_NewRandom :: "'w \<Rightarrow> (UUID \<times> error option) \<times> 'w"
  ext_ApplyCVOConfigFromCache :: "CVOConfig \<Rightarrow> 'w \<Rightarrow> (CVOConfig option \<times> error option) \<times> 'w"
  ext_syncStatus :: "CVOConfig option \<Rightarrow> OperatorStatusCondition \<Rightarrow> 'w \<Rightarrow> error option \<times> 'w"
  ext_syncUpdatePayloadContents ::
    "string \<Rightarrow> CVOConfig option \<Rightarrow> 'w \<Rightarrow> ('p option \<times> error option) \<times> 'w"
  ext_syncUpdatePayload :: "CVOConfig option \<Rightarrow> 'p option \<Rightarrow> 'w \<Rightarrow> error option \<times> 'w"
  ext_syncDegradedStatus :: "error option \<Rightarrow> 'w \<Rightarrow> error option \<times> 'w"
  ext_HandleError :: "error option \<Rightarrow> 'w \<Rightarrow> 'w"
  uuid_Variant :: "UUID \<Rightarrow> Variant"
  uuid_Version :: "UUID \<Rightarrow> 8 word"
  updatePayloadsPathPrefix :: string

definition maxRetries :: int where
  "maxRetries = 15"

definition installconfigKey :: string where
  "installconfigKey = ''installconfig''"

definition workQueueKey :: key where
  "workQueueKey = ''kube-system/installconfig''"

section \<open>Calls that leave the file\<close>

text \<open>A run that starts in world \<open>w\<close> with nothing recorded yet.\<close>

definition start :: "'w \<Rightarrow> ('w, 'p) exec" where
  "start w = \<lparr>world = w, trace = []\<rparr>"

definition emit :: "'p event \<Rightarrow> ('w, 'p) exec \<Rightarrow> ('w, 'p) exec" where
  "emit e s = s\<lparr>trace := trace s @ [e]\<rparr>"

definition glogV :: "nat \<Rightarrow> log_line \<Rightarrow> ('w, 'p) exec \<Rightarrow> ('w, 'p) exec" where
  "glogV v l s = emit (Glog v l) s"

definition queue_Add :: "'w Operator \<Rightarrow> key \<Rightarrow> ('w, 'p) exec \<Rightarrow> ('w, 'p) exec" where
  "queue_Add optr k s = emit (QueueAdd k) (s\<lparr>world := q_Add (queue optr) k (world s)\<rparr>)"

definition queue_Get ::
  "'w Operator \<Rightarrow> ('w, 'p) exec \<Rightarrow> ((key \<times> bool) \<times> ('w, 'p) exec) option" where
  "queue_Get optr s =
     (case q_Get (queue optr) (world s) of
        None \<Rightarrow> None
      | Some ((k, quit), w) \<Rightarrow> Some ((k, quit), emit (QueueGet k quit) (s\<lparr>world := w\<rparr>)))"

definition queue_Done :: "'w Operator \<Rightarrow> key \<Rightarrow> ('w, 'p) exec \<Rightarrow> ('w, 'p) exec" where
  "queue_Done optr k s = emit (QueueDone k) (s\<lparr>world := q_Done (queue optr) k (world s)\<rparr>)"

definition queue_Forget :: "'w Operator \<Rightarrow> key \<Rightarrow> ('w, 'p) exec \<Rightarrow> ('w, 'p) exec" where
  "queue_Forget optr k s =
     emit (QueueForget k) (s\<lparr>world := q_Forget (queue optr) k (world s)\<rparr>)"

definition queue_NumRequeues ::
  "'w Operator \<Rightarrow> key \<Rightarrow> ('w, 'p) exec \<Rightarrow> int \<times> ('w, 'p) exec" where
  "queue_NumRequeues optr k s =
     (let (n, w) = q_NumRequeues (queue optr) k (world s)
      in (n, emit (QueueNumRequeues k n) (s\<lparr>world := w\<rparr>)))"

definition queue_AddRateLimited :: "'w Operator \<Rightarrow> key \<Rightarrow> ('w, 'p) exec \<Rightarrow> ('w, 'p) exec" where
  "queue_AddRateLimited optr k s =
     emit (QueueAddRateLimited k) (s\<lparr>world := q_AddRateLimited (queue optr) k (world s)\<rparr>)"

definition syncDegradedStatus ::
  "('w, 'p) collaborators \<Rightarrow> error option \<Rightarrow> ('w, 'p) exec \<Rightarrow> error option \<times> ('w, 'p) exec" where
  "syncDegradedStatus c ierr s =
     (let (r, w) = ext_syncDegradedStatus c ierr (world s)
      in (r, emit (CallSyncDegradedStatus ierr r) (s\<lparr>world := w\<rparr>)))"

definition HandleError ::
  "('w, 'p) collaborators \<Rightarrow> error option \<Rightarrow> ('w, 'p) exec \<Rightarrow> ('w, 'p) exec" where
  "HandleError c err s = emit (CallHandleError err) (s\<lparr>world := ext_HandleError c err (world s)\<rparr>)"

section \<open>The retry-handling policy\<close>

text \<open>
  \<open>handleErr\<close>, branch by branch: a nil error forgets the key; an error below the retry
  limit logs and requeues with backoff; otherwise the degraded status is synced, what that
  returns is handed to the process-wide error handler, and the key is forgotten.
\<close>

definition handleErr ::
  "('w, 'p) collaborators \<Rightarrow> 'w Operator \<Rightarrow> error option \<Rightarrow> key \<Rightarrow> ('w, 'p) exec \<Rightarrow> ('w, 'p) exec"
  where
  "handleErr c optr err k s =
     (case err of
        None \<Rightarrow> queue_Forget optr k s
      | Some e \<Rightarrow>
          (let (n, s1) = queue_NumRequeues optr k s in
           if n < maxRetries then
             queue_AddRateLimited optr k (glogV 2 (ErrorSyncing k e) s1)
           else
             (let (err', s2) = syncDegradedStatus c (Some e) s1;
                  s3 = HandleError c err' s2;
                  s4 = glogV 2 (DroppingOperator k err') s3
              in queue_Forget optr k s4)))"

section \<open>The worker\<close>

definition call_syncHandler ::
  "'w Operator \<Rightarrow> key \<Rightarrow> ('w, 'p) exec \<Rightarrow> handler_outcome \<times> ('w, 'p) exec" where
  "call_syncHandler optr k s =
     (let (r, w) = syncHandler optr k (world s)
      in (r, emit (CallSyncHandler k r) (s\<lparr>world := w\<rparr>)))"

text \<open>How a call of \<open>processNextWorkItem\<close> ends.\<close>

datatype call_outcome = Returned bool | Panicked | Blocked

text \<open>
  \<open>processNextWorkItem\<close>. \<open>Done(key)\<close> is deferred right after a successful \<open>Get\<close>, so it
  runs when the function leaves: after \<open>handleErr\<close> on the normal path, and while the panic
  of the sync handler unwinds.
\<close>

definition processNextWorkItem ::
  "('w, 'p) collaborators \<Rightarrow> 'w Operator \<Rightarrow> ('w, 'p) exec \<Rightarrow> call_outcome \<times> ('w, 'p) exec"
  where
  "processNextWorkItem c optr s =
     (case queue_Get optr s of
        None \<Rightarrow> (Blocked, s)
      | Some ((k, quit), s1) \<Rightarrow>
          if quit then (Returned False, s1)
          else
            (case call_syncHandler optr k s1 of
               (Panics, s2) \<Rightarrow> (Panicked, queue_Done optr k s2)
             | (Returns err, s2) \<Rightarrow>
                 (Returned True, queue_Done optr k (handleErr c optr err k s2))))"

text \<open>
  \<open>worker\<close> calls \<open>processNextWorkItem\<close> until it returns false. The loop has no bound of
  its own, so the model takes fuel: \<open>None\<close> is a loop still running when the fuel is spent
  or blocked in \<open>Get\<close>, or one that a panic left.
\<close>

fun worker ::
  "nat \<Rightarrow> ('w, 'p) collaborators \<Rightarrow> 'w Operator \<Rightarrow> ('w, 'p) exec \<Rightarrow> ('w, 'p) exec option"
  where
  "worker 0 c optr s = None"
| "worker (Suc fuel) c optr s =
     (case processNextWorkItem c optr s of
        (Returned True, s') \<Rightarrow> worker fuel c optr s'
      | (Returned False, s') \<Rightarrow> Some s'
      | (Panicked, s') \<Rightarrow> None
      | (Blocked, s') \<Rightarrow> None)"

section \<open>The event bridge\<close>

text \<open>
  \<open>cache.ResourceEventHandlerFuncs\<close>: three callbacks. A notification carries one object, or
  the old and the new one; \<open>'o\<close> is Go's \<open>interface{}\<close>.
\<close>

record ('o, 'w, 'p) ResourceEventHandlerFuncs =
  AddFunc :: "'o \<Rightarrow> ('w, 'p) exec \<Rightarrow> ('w, 'p) exec"
  UpdateFunc :: "'o \<Rightarrow> 'o \<Rightarrow> ('w, 'p) exec \<Rightarrow> ('w, 'p) exec"
  DeleteFunc :: "'o \<Rightarrow> ('w, 'p) exec \<Rightarrow> ('w, 'p) exec"

datatype 'o notification = OnAdd 'o | OnUpdate 'o 'o | OnDelete 'o

fun deliver ::
  "('o, 'w, 'p) ResourceEventHandlerFuncs \<Rightarrow> 'o notification \<Rightarrow> ('w, 'p) exec \<Rightarrow> ('w, 'p) exec"
  where
  "deliver h (OnAdd obj) s = AddFunc h obj s"
| "deliver h (OnUpdate old new) s = UpdateFunc h old new s"
| "deliver h (OnDelete obj) s = DeleteFunc h obj s"

definition eventHandler :: "'w Operator \<Rightarrow> ('o, 'w, 'p) ResourceEventHandlerFuncs" where
  "eventHandler optr =
     \<lparr>AddFunc = (\<lambda>obj. queue_Add optr workQueueKey),
      UpdateFunc = (\<lambda>old new. queue_Add optr workQueueKey),
      DeleteFunc = (\<lambda>obj. queue_Add optr workQueueKey)\<rparr>"

text \<open>
  The four informers handed to \<open>New\<close>. \<open>New\<close> adds the event handler to two of them, the
  CVOConfig informer and the CRD informer; the other two only serve listers.
\<close>

datatype informer = cvoConfigInformer | operatorStatusInformer | crdInformer | deployInformer

definition New_handlers ::
  "'w Operator \<Rightarrow> (informer \<times> ('o, 'w, 'p) ResourceEventHandlerFuncs) list" where
  "New_handlers optr =
     [(cvoConfigInformer, eventHandler optr),
      (crdInformer, eventHandler optr)]"

text \<open>An informer hands a notification to every handler added to it, in the order added.\<close>

definition notify ::
  "'w Operator \<Rightarrow> informer \<Rightarrow> 'o notification \<Rightarrow> ('w, 'p) exec \<Rightarrow> ('w, 'p) exec" where
  "notify optr src n s =
     fold (\<lambda>(i, h) s'. if i = src then deliver h n s' else s') (New_handlers optr) s"

section \<open>The sync pipeline\<close>

definition syncCVOCRDs ::
  "('w, 'p) collaborators \<Rightarrow> ('w, 'p) exec \<Rightarrow> error option \<times> ('w, 'p) exec" where
  "syncCVOCRDs c s =
     (let (r, w) = ext_syncCVOCRDs c (world s)
      in (r, emit (CallSyncCVOCRDs r) (s\<lparr>world := w\<rparr>)))"

definition NewRandom ::
  "('w, 'p) collaborators \<Rightarrow> ('w, 'p) exec \<Rightarrow> (UUID \<times> error option) \<times> ('w, 'p) exec" where
  "NewRandom c s =
     (let ((id, err), w) = ext_NewRandom c (world s)
      in ((id, err), emit (CallNewRandom id err) (s\<lparr>world := w\<rparr>)))"

definition ApplyCVOConfigFromCache ::
  "('w, 'p) collaborators \<Rightarrow> CVOConfig \<Rightarrow> ('w, 'p) exec
     \<Rightarrow> (CVOConfig option \<times> error option) \<times> ('w, 'p) exec" where
  "ApplyCVOConfigFromCache c config s =
     (let ((actual, err), w) = ext_ApplyCVOConfigFromCache c config (world s)
      in ((actual, err), emit (CallApplyCVOConfigFromCache config actual err) (s\<lparr>world := w\<rparr>)))"

definition syncStatus ::
  "('w, 'p) collaborators \<Rightarrow> CVOConfig option \<Rightarrow> OperatorStatusCondition \<Rightarrow> ('w, 'p) exec
     \<Rightarrow> error option \<times> ('w, 'p) exec" where
  "syncStatus c config cond s =
     (let (r, w) = ext_syncStatus c config cond (world s)
      in (r, emit (CallSyncStatus config cond r) (s\<lparr>world := w\<rparr>)))"

definition syncUpdatePayloadContents ::
  "('w, 'p) collaborators \<Rightarrow> string \<Rightarrow> CVOConfig option \<Rightarrow> ('w, 'p) exec
     \<Rightarrow> ('p option \<times> error option) \<times> ('w, 'p) exec" where
  "syncUpdatePayloadContents c pathprefix config s =
     (let ((payload, err), w) = ext_syncUpdatePayloadContents c pathprefix config (world s)
      in ((payload, err),
          emit (CallSyncUpdatePayloadContents pathprefix config payload err) (s\<lparr>world := w\<rparr>)))"

definition syncUpdatePayload ::
  "('w, 'p) collaborators \<Rightarrow> CVOConfig option \<Rightarrow> 'p option \<Rightarrow> ('w, 'p) exec
     \<Rightarrow> error option \<times> ('w, 'p) exec" where
  "syncUpdatePayload c config payload s =
     (let (r, w) = ext_syncUpdatePayload c config payload (world s)
      in (r, emit (CallSyncUpdatePayload config payload r) (s\<lparr>world := w\<rparr>)))"

text \<open>
  \<open>getConfig\<close>: the result is Go's pair (config pointer, error). The error that
  \<open>uuid.NewRandom\<close> returns is dropped (\<open>id, _ :=\<close>).
\<close>

definition getConfig ::
  "('w, 'p) collaborators \<Rightarrow> 'w Operator \<Rightarrow> ('w, 'p) exec
     \<Rightarrow> (CVOConfig option \<times> error option) \<times> ('w, 'p) exec" where
  "getConfig c optr s =
     (let upstream = ''http://localhost:8080/graph'';
          channel = ''fast'';
          ((id, _), s1) = NewRandom c s;
          config = \<lparr>Namespace = namespace optr, Name = name optr,
                    Upstream = upstream, Channel = channel, ClusterID = id\<rparr>
      in
        if uuid_Variant c (ClusterID config) \<noteq> RFC4122 then
          ((None,
            Some (Errorf ''invalid ClusterID %q, must be an RFC4122-variant UUID: found %s''
                    (ClusterID config) (ArgVariant (uuid_Variant c (ClusterID config))))), s1)
        else if uuid_Version c (ClusterID config) \<noteq> 4 then
          ((None,
            Some (Errorf ''Invalid ClusterID %q, must be a version-4 UUID: found %s''
                    (ClusterID config) (ArgVersion (uuid_Version c (ClusterID config))))), s1)
        else ApplyCVOConfigFromCache c config s1)"

definition call_getConfig ::
  "('w, 'p) collaborators \<Rightarrow> 'w Operator \<Rightarrow> ('w, 'p) exec
     \<Rightarrow> (CVOConfig option \<times> error option) \<times> ('w, 'p) exec" where
  "call_getConfig c optr s =
     (let ((config, err), s') = getConfig c optr s
      in ((config, err), emit (CallGetConfig config err) s'))"

text \<open>
  \<open>sync\<close>. The two log lines frame the body: the second one is deferred, so it is written
  on every way out.
\<close>

definition sync ::
  "('w, 'p) collaborators \<Rightarrow> 'w Operator \<Rightarrow> key \<Rightarrow> ('w, 'p) exec
     \<Rightarrow> error option \<times> ('w, 'p) exec" where
  "sync c optr k s =
     (let s0 = glogV 4 (StartedSyncing k) s;
          (r, s9) =
            (case syncCVOCRDs c s0 of
               (Some err, s1) \<Rightarrow> (Some err, s1)
             | (None, s1) \<Rightarrow>
            (case call_getConfig c optr s1 of
               ((config, Some err), s2) \<Rightarrow> (Some err, s2)
             | ((config, None), s2) \<Rightarrow>
            (case syncStatus c config
                    \<lparr>cond_Type = Working,
                     cond_Message = Sprintf ''Working towards %s'' config\<rparr> s2 of
               (Some err, s3) \<Rightarrow> (Some err, s3)
             | (None, s3) \<Rightarrow>
            (case syncUpdatePayloadContents c (updatePayloadsPathPrefix c) config s3 of
               ((payload, Some err), s4) \<Rightarrow> (Some err, s4)
             | ((payload, None), s4) \<Rightarrow>
            (case syncUpdatePayload c config payload s4 of
               (Some err, s5) \<Rightarrow> (Some err, s5)
             | (None, s5) \<Rightarrow>
                 syncStatus c config
                   \<lparr>cond_Type = Done,
                    cond_Message = Sprintf ''Done applying %s'' config\<rparr> s5)))))
      in (r, glogV 4 (FinishedSyncing k) s9))"

text \<open>The six stages of the pipeline, and the stage a recorded call belongs to.\<close>

datatype stage =
  EnsureDefinitions | ResolveConfig | PublishWorking | FetchPayload | ApplyPayload | PublishDone

definition all_stages :: "stage list" where
  "all_stages =
     [EnsureDefinitions, ResolveConfig, PublishWorking, FetchPayload, ApplyPayload, PublishDone]"

fun stage_of :: "'p event \<Rightarrow> (stage \<times> error option) option" where
  "stage_of (CallSyncCVOCRDs r) = Some (EnsureDefinitions, r)"
| "stage_of (CallGetConfig config r) = Some (ResolveConfig, r)"
| "stage_of (CallSyncStatus config cond r) =
     (case cond_Type cond of
        Working \<Rightarrow> Some (PublishWorking, r)
      | Done \<Rightarrow> Some (PublishDone, r)
      | Degraded \<Rightarrow> None)"
| "stage_of (CallSyncUpdatePayloadContents pathprefix config payload r) = Some (FetchPayload, r)"
| "stage_of (CallSyncUpdatePayload config payload r) = Some (ApplyPayload, r)"
| "stage_of _ = None"

definition stage_log :: "'p event list \<Rightarrow> (stage \<times> error option) list" where
  "stage_log tr = List.map_filter stage_of tr"

section \<open>The retry queue\<close>

text \<open>
  The Leveled Retry Queue is client-go's \<open>workqueue\<close>, a library outside \<open>cvo.go\<close>. Its
  model follows the contract of the spec's section 4.1, method by method. Delays are numbers
  of milliseconds; a scheduled add waits in \<open>wq_waiting\<close> until its delay has elapsed.
\<close>

text \<open>
  Modelled from the spec: the state of the Retry Queue, whose type is missing. The pending
  keys in order, the dedup state, the keys in flight, whether draining was requested, the
  requeue count per key, and the adds scheduled with their delays.
\<close>

record workqueue =
  wq_items :: "key list"
  wq_dirty :: "key set"
  wq_processing :: "key set"
  wq_shuttingDown :: bool
  wq_failures :: "key \<Rightarrow> nat"
  wq_waiting :: "(key \<times> nat) list"

text \<open>Modelled from the spec: the new queue, whose constructor is missing. Nothing is pending.\<close>

definition wq_empty :: workqueue where
  "wq_empty =
     \<lparr>wq_items = [], wq_dirty = {}, wq_processing = {}, wq_shuttingDown = False,
      wq_failures = (\<lambda>k. 0), wq_waiting = []\<rparr>"

text \<open>
  Modelled from the spec: \<open>Add\<close>, which is missing. It marks a key as needing processing;
  on a key already pending it does nothing, and on a key being processed it only bumps the
  dedup state.
\<close>

definition wq_Add :: "key \<Rightarrow> workqueue \<Rightarrow> workqueue" where
  "wq_Add k q =
     (if k \<in> wq_dirty q then q
      else if k \<in> wq_processing q then q\<lparr>wq_dirty := insert k (wq_dirty q)\<rparr>
      else q\<lparr>wq_dirty := insert k (wq_dirty q), wq_items := wq_items q @ [k]\<rparr>)"

text \<open>
  Modelled from the spec: \<open>Get\<close>, which is missing. It blocks until a key is available,
  returns the oldest pending key and marks it in flight; it returns the shutdown signal once
  draining was requested and nothing is pending. \<open>None\<close> is the call that blocks.
\<close>

definition wq_Get :: "workqueue \<Rightarrow> ((key \<times> bool) \<times> workqueue) option" where
  "wq_Get q =
     (case wq_items q of
        [] \<Rightarrow> if wq_shuttingDown q then Some (([], True), q) else None
      | k # ks \<Rightarrow>
          Some ((k, False),
                q\<lparr>wq_items := ks,
                  wq_processing := insert k (wq_processing q),
                  wq_dirty := wq_dirty q - {k}\<rparr>))"

text \<open>
  Modelled from the spec: \<open>Done\<close>, which is missing. It marks the key no longer in flight;
  a key that was added again while in flight becomes pending.
\<close>

definition wq_Done :: "key \<Rightarrow> workqueue \<Rightarrow> workqueue" where
  "wq_Done k q =
     (if k \<in> wq_dirty q
      then q\<lparr>wq_processing := wq_processing q - {k}, wq_items := wq_items q @ [k]\<rparr>
      else q\<lparr>wq_processing := wq_processing q - {k}\<rparr>)"

text \<open>Modelled from the spec: \<open>Forget\<close>, which is missing. It clears the retry bookkeeping.\<close>

definition wq_Forget :: "key \<Rightarrow> workqueue \<Rightarrow> workqueue" where
  "wq_Forget k q = q\<lparr>wq_failures := (wq_failures q)(k := 0)\<rparr>"

text \<open>Modelled from the spec: \<open>NumRequeues\<close>, which is missing. It reports the current count.\<close>

definition wq_NumRequeues :: "key \<Rightarrow> workqueue \<Rightarrow> int \<times> workqueue" where
  "wq_NumRequeues k q = (int (wq_failures q k), q)"

text \<open>Modelled from the spec: the base delay of the rate limiter, 5 milliseconds.\<close>

definition baseDelay :: nat where
  "baseDelay = 5"

text \<open>
  Modelled from the spec: the backoff delay of the rate limiter, which is missing:
  \<open>baseDelay * 2 ^ requeueCount\<close>, up to a ceiling that the implementation chooses.
\<close>

definition backoff :: "nat \<Rightarrow> nat \<Rightarrow> nat" where
  "backoff ceiling requeueCount = min (baseDelay * 2 ^ requeueCount) ceiling"

text \<open>
  Modelled from the spec: \<open>AddRateLimited\<close>, which is missing. It re-enqueues the key after
  the backoff delay and counts the requeue.
\<close>

definition wq_AddRateLimited :: "nat \<Rightarrow> key \<Rightarrow> workqueue \<Rightarrow> workqueue" where
  "wq_AddRateLimited ceiling k q =
     q\<lparr>wq_waiting := wq_waiting q @ [(k, backoff ceiling (wq_failures q k))],
       wq_failures := (wq_failures q)(k := Suc (wq_failures q k))\<rparr>"

text \<open>Modelled from the spec: \<open>ShutDown\<close>, which is missing. It requests draining.\<close>

definition wq_ShutDown :: "workqueue \<Rightarrow> workqueue" where
  "wq_ShutDown q = q\<lparr>wq_shuttingDown := True\<rparr>"

text \<open>
  Modelled from the spec: the end of a backoff delay, for the scheduled add at position \<open>i\<close>:
  the key is added as \<open>Add\<close> does.
\<close>

definition wq_fire :: "nat \<Rightarrow> workqueue \<Rightarrow> workqueue" where
  "wq_fire i q =
     (if i < length (wq_waiting q)
      then wq_Add (fst (wq_waiting q ! i))
             (q\<lparr>wq_waiting := take i (wq_waiting q) @ drop (Suc i) (wq_waiting q)\<rparr>)
      else q)"

text \<open>The queue as the operator sees it, with a ceiling for the backoff.\<close>

definition workqueue_interface :: "nat \<Rightarrow> workqueue RateLimitingInterface" where
  "workqueue_interface ceiling =
     \<lparr>q_Add = wq_Add, q_Get = wq_Get, q_Done = wq_Done, q_Forget = wq_Forget,
      q_NumRequeues = wq_NumRequeues, q_AddRateLimited = wq_AddRateLimited ceiling\<rparr>"

section \<open>The degraded status\<close>

text \<open>
  Modelled from the spec: the message of the Degraded condition, whose type is missing. It
  carries the last error.
\<close>

datatype status_message = ErrorSyncingMessage "error option"

text \<open>
  Modelled from the spec: \<open>syncDegradedStatus\<close>, declared in another file of the package.
  By the spec, the retry policy publishes a Degraded status condition carrying the last
  error through the status sink, and the error then surfaced to the process-wide handler is
  that error. The sink is a parameter; the spec does not say what becomes of its answer, and
  the model does not use it.
\<close>

definition syncDegradedStatus_spec ::
  "(OperatorStatusConditionType \<Rightarrow> status_message \<Rightarrow> 'w \<Rightarrow> error option \<times> 'w)
     \<Rightarrow> error option \<Rightarrow> 'w \<Rightarrow> error option \<times> 'w" where
  "syncDegradedStatus_spec publish ierr w =
     (let (r, w') = publish Degraded (ErrorSyncingMessage ierr) w in (ierr, w'))"

section \<open>The identifier\<close>

text \<open>
  The \<open>uuid\<close> package is a library outside \<open>cvo.go\<close>. The spec asks for a freshly generated
  identifier of variant 1 (RFC 4122) and version 4 (random) and speaks of its variant and
  version bits; RFC 4122 keeps the variant in the top bits of octet 8 and the version in the
  top four bits of octet 6.
\<close>

text \<open>Modelled from the spec: the zero-value identifier \<open>uuid.Nil\<close>, which is missing.\<close>

definition Nil_UUID :: UUID where
  "Nil_UUID = replicate 16 0"

text \<open>
  Modelled from the spec: \<open>UUID.Variant\<close>, which is missing. The variant bits of RFC 4122:
  \<open>10\<close> for RFC 4122 itself, \<open>110\<close> for Microsoft, \<open>111\<close> for the future, \<open>0\<close> reserved.
\<close>

definition UUID_Variant :: "UUID \<Rightarrow> Variant" where
  "UUID_Variant u =
     (if (u ! 8) AND 0xc0 = 0x80 then RFC4122
      else if (u ! 8) AND 0xe0 = 0xc0 then Microsoft
      else if (u ! 8) AND 0xe0 = 0xe0 then Future
      else Reserved)"

text \<open>Modelled from the spec: \<open>UUID.Version\<close>, which is missing. The version bits of RFC 4122.\<close>

definition UUID_Version :: "UUID \<Rightarrow> 8 word" where
  "UUID_Version u = drop_bit 4 (u ! 6)"

text \<open>
  Modelled from the spec: \<open>uuid.NewRandom\<close>, which is missing. A fresh random identifier:
  sixteen bytes from the random source \<open>rd\<close>, with the version set to 4 and the variant to
  RFC 4122. The spec is silent on a generation that fails; the model takes it that a source
  delivering fewer than sixteen bytes yields the zero-value identifier together with an
  error, as Go functions return the zero value beside an error.
\<close>

definition UUID_NewRandom ::
  "('w \<Rightarrow> 8 word list \<times> 'w) \<Rightarrow> 'w \<Rightarrow> (UUID \<times> error option) \<times> 'w" where
  "UUID_NewRandom rd w =
     (let (bs, w') = rd w in
      if length bs < 16 then ((Nil_UUID, Some (Opaque ''unexpected EOF'')), w')
      else
        (let u = take 16 bs;
             u6 = u[6 := ((u ! 6) AND 0x0f) OR 0x40];
             u8 = u6[8 := ((u6 ! 8) AND 0x3f) OR 0x80]
         in ((u8, None), w')))"

section \<open>Workers and triggers side by side\<close>

text \<open>
  Several workers run \<open>processNextWorkItem\<close> on one queue while notifications and timers
  add keys. Each queue method is atomic, so a run of the whole is a sequence of actions:
  a notification reaches the event bridge, a scheduled add fires, a worker takes its next
  step, or \<open>Run\<close> shuts the queue down. A worker is idle, or between \<open>Get\<close> and the
  return of the sync handler, or between \<open>handleErr\<close> and the deferred \<open>Done\<close>, or it has
  left its loop, after the shutdown signal or through a panic of the sync handler (the
  deferred \<open>Done\<close> still runs). The queue calls of one \<open>handleErr\<close> are taken
  as one step: they touch the retry count and the scheduled adds of the worker's own key
  only.
\<close>

datatype worker_pc = Idle | Syncing key | Handled key | Stopped

record sys =
  sys_queue :: workqueue
  sys_workers :: "worker_pc list"

datatype 'o action =
    Notify informer "'o notification"
  | TimerFires nat
  | WorkerGet nat
  | SyncReturns nat "error option"
  | SyncPanics nat
  | WorkerDone nat
  | Drain

definition sys_init :: "nat \<Rightarrow> sys" where
  "sys_init workers = \<lparr>sys_queue = wq_empty, sys_workers = replicate workers Idle\<rparr>"

fun sys_step ::
  "(workqueue, 'p) collaborators \<Rightarrow> workqueue Operator \<Rightarrow> 'o action \<Rightarrow> sys \<Rightarrow> sys option"
  where
  "sys_step c optr (Notify src n) s =
     Some (s\<lparr>sys_queue :=
               world (notify optr src n (start (sys_queue s) :: (workqueue, 'p) exec))\<rparr>)"
| "sys_step c optr (TimerFires i) s =
     (if i < length (wq_waiting (sys_queue s))
      then Some (s\<lparr>sys_queue := wq_fire i (sys_queue s)\<rparr>)
      else None)"
| "sys_step c optr (WorkerGet i) s =
     (if i < length (sys_workers s) \<and> sys_workers s ! i = Idle then
        (case queue_Get optr (start (sys_queue s) :: (workqueue, 'p) exec) of
           None \<Rightarrow> None
         | Some ((k, quit), s1) \<Rightarrow>
             Some \<lparr>sys_queue = world s1,
                   sys_workers = (sys_workers s)[i := if quit then Stopped else Syncing k]\<rparr>)
      else None)"
| "sys_step c optr (SyncReturns i err) s =
     (if i < length (sys_workers s) then
        (case sys_workers s ! i of
           Syncing k \<Rightarrow>
             Some \<lparr>sys_queue = world (handleErr c optr err k (start (sys_queue s))),
                   sys_workers = (sys_workers s)[i := Handled k]\<rparr>
         | _ \<Rightarrow> None)
      else None)"
| "sys_step c optr (SyncPanics i) s =
     (if i < length (sys_workers s) then
        (case sys_workers s ! i of
           Syncing k \<Rightarrow>
             Some \<lparr>sys_queue =
                     world (queue_Done optr k (start (sys_queue s) :: (workqueue, 'p) exec)),
                   sys_workers = (sys_workers s)[i := Stopped]\<rparr>
         | _ \<Rightarrow> None)
      else None)"
| "sys_step c optr (WorkerDone i) s =
     (if i < length (sys_workers s) then
        (case sys_workers s ! i of
           Handled k \<Rightarrow>
             Some \<lparr>sys_queue =
                     world (queue_Done optr k (start (sys_queue s) :: (workqueue, 'p) exec)),
                   sys_workers = (sys_workers s)[i := Idle]\<rparr>
         | _ \<Rightarrow> None)
      else None)"
| "sys_step c optr Drain s = Some (s\<lparr>sys_queue := wq_ShutDown (sys_queue s)\<rparr>)"

fun sys_run ::
  "(workqueue, 'p) collaborators \<Rightarrow> workqueue Operator \<Rightarrow> 'o action list \<Rightarrow> sys \<Rightarrow> sys option"
  where
  "sys_run c optr [] s = Some s"
| "sys_run c optr (a # as) s =
     (case sys_step c optr a s of None \<Rightarrow> None | Some s' \<Rightarrow> sys_run c optr as s')"

text \<open>
  A worker holds a key between \<open>Get\<close> and \<open>Done\<close>: the key is in flight. \<open>holders\<close>
  counts the workers that hold a key.
\<close>

definition holds :: "key \<Rightarrow> worker_pc \<Rightarrow> bool" where
  "holds k pc \<longleftrightarrow> pc = Syncing k \<or> pc = Handled k"

definition holders :: "key \<Rightarrow> sys \<Rightarrow> nat" where
  "holders k s = length (filter (holds k) (sys_workers s))"

text \<open>
  What every reachable state satisfies: a pending key is pending once, is marked dirty and is
  not being processed; a dirty key is pending or being processed; and the keys being
  processed are the keys held, each by one worker.
\<close>

definition sys_inv :: "sys \<Rightarrow> bool" where
  "sys_inv s \<longleftrightarrow>
     distinct (wq_items (sys_queue s))
     \<and> set (wq_items (sys_queue s)) \<subseteq> wq_dirty (sys_queue s)
     \<and> set (wq_items (sys_queue s)) \<inter> wq_processing (sys_queue s) = {}
     \<and> wq_dirty (sys_queue s) \<subseteq> set (wq_items (sys_queue s)) \<union> wq_processing (sys_queue s)
     \<and> (\<forall>k. holders k s = (if k \<in> wq_processing (sys_queue s) then 1 else 0))"

text \<open>
  The collaborators of \<open>handleErr\<close> work on the cluster, not on the queue: where the world is
  the queue alone, they leave it as it is.
\<close>

definition leaves_queue :: "(workqueue, 'p) collaborators \<Rightarrow> bool" where
  "leaves_queue c \<longleftrightarrow>
     (\<forall>e q. snd (ext_syncDegradedStatus c e q) = q) \<and> (\<forall>e q. ext_HandleError c e q = q)"

section \<open>Failures in a row\<close>

text \<open>
  One worker, one key, a sync that keeps failing. After each call of
  \<open>processNextWorkItem\<close> the delays scheduled by it elapse (\<open>elapse\<close>), which puts the key
  back into the queue if it was requeued. \<open>failed_attempts n\<close> is the queue after \<open>n\<close> such
  rounds, so the attempt with index \<open>n\<close>, counted from 0, runs on \<open>failed_attempts n\<close>.
  \<open>retrying k n\<close> is the queue in which \<open>k\<close> is pending again after \<open>n\<close> requeues.
\<close>

definition elapse :: "workqueue \<Rightarrow> workqueue" where
  "elapse q = ((wq_fire 0) ^^ length (wq_waiting q)) q"

fun failed_attempts ::
  "nat \<Rightarrow> (workqueue, 'p) collaborators \<Rightarrow> workqueue Operator \<Rightarrow> workqueue \<Rightarrow> workqueue" where
  "failed_attempts 0 c optr q = q"
| "failed_attempts (Suc n) c optr q =
     elapse (world (snd (processNextWorkItem c optr (start (failed_attempts n c optr q)))))"

definition retrying :: "key \<Rightarrow> nat \<Rightarrow> workqueue" where
  "retrying k n =
     \<lparr>wq_items = [k], wq_dirty = {k}, wq_processing = {}, wq_shuttingDown = False,
      wq_failures = (\<lambda>x. 0)(k := n), wq_waiting = []\<rparr>"

section \<open>Reading traces\<close>

text \<open>The calls recorded between two states, and the stages \<open>sync\<close> went through.\<close>

definition new_events :: "('w, 'p) exec \<Rightarrow> ('w, 'p) exec \<Rightarrow> 'p event list" where
  "new_events s s' = drop (length (trace s)) (trace s')"

definition sync_stage_log ::
  "('w, 'p) collaborators \<Rightarrow> 'w Operator \<Rightarrow> key \<Rightarrow> ('w, 'p) exec \<Rightarrow> (stage \<times> error option) list"
  where
  "sync_stage_log c optr k s = stage_log (new_events s (snd (sync c optr k s)))"

text \<open>The calls the retry policy makes when it runs in world \<open>w\<close>.\<close>

definition policy_events ::
  "('w, 'p) collaborators \<Rightarrow> 'w Operator \<Rightarrow> error option \<Rightarrow> key \<Rightarrow> 'w \<Rightarrow> 'p event list" where
  "policy_events c optr err k w = trace (handleErr c optr err k (start w))"

fun is_Done :: "'p event \<Rightarrow> bool" where
  "is_Done (QueueDone k) = True"
| "is_Done _ = False"

text \<open>\<open>a\<close> is recorded before the first \<open>b\<close>.\<close>

definition comes_before :: "'a \<Rightarrow> 'a \<Rightarrow> 'a list \<Rightarrow> bool" where
  "comes_before a b xs \<longleftrightarrow> b \<in> set xs \<and> a \<in> set (takeWhile (\<lambda>x. x \<noteq> b) xs)"

section \<open>A concrete operator\<close>

text \<open>
  An operator on the retry queue with a ceiling of 1000 seconds, a sync handler that succeeds,
  and collaborators that all succeed without touching the queue. The random source delivers
  the bytes 1 to 16. The variants: a payload fetch that fails, a generator that hands out an
  identifier of all ones, a random source that is dry, a sync handler that panics, and one
  that always fails. The schedule: two notifications, worker 0 takes the key, a third
  notification arrives while it syncs, and the sync returns.
\<close>

definition demo_optr :: "workqueue Operator" where
  "demo_optr =
     \<lparr>namespace = ''openshift-cluster-version'', name = ''cluster-version-operator'',
      syncHandler = (\<lambda>k w. (Returns None, w)),
      queue = workqueue_interface 1000000\<rparr>"

definition demo_collab :: "(workqueue, nat) collaborators" where
  "demo_collab =
     \<lparr>ext_syncCVOCRDs = (\<lambda>w. (None, w)),
      ext_NewRandom =
        UUID_NewRandom (\<lambda>w. ([1, 2, 3, 4, 5, 6, 7, 8, 9, 10, 11, 12, 13, 14, 15, 16], w)),
      ext_ApplyCVOConfigFromCache = (\<lambda>config w. ((Some config, None), w)),
      ext_syncStatus = (\<lambda>config cond w. (None, w)),
      ext_syncUpdatePayloadContents = (\<lambda>pathprefix config w. ((Some 7, None), w)),
      ext_syncUpdatePayload = (\<lambda>config payload w. (None, w)),
      ext_syncDegradedStatus = syncDegradedStatus_spec (\<lambda>t m w. (None, w)),
      ext_HandleError = (\<lambda>err w. w),
      uuid_Variant = UUID_Variant,
      uuid_Version = UUID_Version,
      updatePayloadsPathPrefix = ''/etc/cvo/update-payloads''\<rparr>"

definition fetch_fails :: "(workqueue, nat) collaborators" where
  "fetch_fails =
     demo_collab\<lparr>ext_syncUpdatePayloadContents :=
        (\<lambda>pathprefix config w. ((None, Some (Opaque ''fetch failed'')), w))\<rparr>"

definition bad_generator :: "(workqueue, nat) collaborators" where
  "bad_generator = demo_collab\<lparr>ext_NewRandom := (\<lambda>w. ((replicate 16 0xff, None), w))\<rparr>"

definition no_entropy :: "(workqueue, nat) collaborators" where
  "no_entropy = demo_collab\<lparr>ext_NewRandom := UUID_NewRandom (\<lambda>w. ([], w))\<rparr>"

definition panicking_optr :: "workqueue Operator" where
  "panicking_optr = demo_optr\<lparr>syncHandler := (\<lambda>k w. (Panics, w))\<rparr>"

definition failing_optr :: "workqueue Operator" where
  "failing_optr = demo_optr\<lparr>syncHandler := (\<lambda>k w. (Returns (Some (Opaque ''timeout'')), w))\<rparr>"

definition demo_schedule :: "nat action list" where
  "demo_schedule =
     [Notify crdInformer (OnAdd 0), Notify cvoConfigInformer (OnUpdate 0 0), WorkerGet 0,
      Notify crdInformer (OnDelete 0), SyncReturns 0 None]"

section \<open>Properties\<close>

subsection \<open>Unfolding the calls\<close>

lemmas call_defs =
  emit_def glogV_def queue_Add_def queue_Get_def queue_Done_def queue_Forget_def
  queue_NumRequeues_def queue_AddRateLimited_def syncDegradedStatus_def HandleError_def

lemmas demo_defs =
  demo_optr_def demo_collab_def workqueue_interface_def wq_empty_def start_def
  wq_Add_def wq_Get_def wq_Done_def wq_Forget_def wq_NumRequeues_def wq_AddRateLimited_def

lemma handleErr_trace:
  "trace (handleErr c optr err k s) = trace s @ policy_events c optr err k (world s)"
  by (simp add: policy_events_def handleErr_def call_defs start_def
           split: option.splits prod.splits)

lemma handleErr_world:
  "world (handleErr c optr err k s) = world (handleErr c optr err k (start (world s)))"
  by (simp add: handleErr_def call_defs start_def split: option.splits prod.splits)

lemma policy_events_no_Done: "filter is_Done (policy_events c optr err k w) = []"
  by (simp add: policy_events_def handleErr_def call_defs start_def
           split: option.splits prod.splits)

subsection \<open>The retry-handling policy\<close>

text \<open>
  C1. After the sync pipeline returns: with a nil error the policy calls \<open>Forget(key)\<close> on the
  queue and nothing else (no requeue, no status publication); with a non-nil error and
  \<open>NumRequeues(key) < maxRetries\<close> (15) it calls \<open>AddRateLimited(key)\<close>, after logging the
  error at verbosity 2, and neither \<open>Forget\<close> nor the degraded escalation happens.
\<close>

theorem handleErr_forget_or_requeue:
  "(err = None \<longrightarrow>
      handleErr c optr err k s =
        \<lparr>world = q_Forget (queue optr) k (world s), trace = trace s @ [QueueForget k]\<rparr>)
   \<and> (\<forall>e. err = Some e \<and> fst (q_NumRequeues (queue optr) k (world s)) < 15 \<longrightarrow>
      handleErr c optr err k s =
        \<lparr>world = q_AddRateLimited (queue optr) k (snd (q_NumRequeues (queue optr) k (world s))),
         trace = trace s @
           [QueueNumRequeues k (fst (q_NumRequeues (queue optr) k (world s))),
            Glog 2 (ErrorSyncing k e),
            QueueAddRateLimited k]\<rparr>)"
  by (cases "q_NumRequeues (queue optr) k (world s)")
     (simp add: handleErr_def call_defs maxRetries_def)

theorem handleErr_forget_or_requeue_witness:
  "trace (handleErr demo_collab demo_optr None workQueueKey (start wq_empty)) =
     [QueueForget workQueueKey]
   \<and> trace (handleErr demo_collab demo_optr (Some (Opaque ''timeout'')) workQueueKey
        (start wq_empty)) =
     [QueueNumRequeues workQueueKey 0,
      Glog 2 (ErrorSyncing workQueueKey (Opaque ''timeout'')),
      QueueAddRateLimited workQueueKey]"
  using handleErr_forget_or_requeue [of None demo_collab demo_optr workQueueKey "start wq_empty"]
        handleErr_forget_or_requeue [of "Some (Opaque ''timeout'')" demo_collab demo_optr
          workQueueKey "start wq_empty"]
  by (simp add: demo_optr_def workqueue_interface_def wq_NumRequeues_def wq_empty_def start_def)

text \<open>
  C2. When sync returned a non-nil error and \<open>NumRequeues(key)\<close> has reached \<open>maxRetries\<close>
  (15), the handler publishes a Degraded status condition carrying that error, hands that same
  error to the process-wide error handler, and then calls \<open>Forget(key)\<close>; the key is not
  requeued on this path. The publication is \<open>syncDegradedStatus\<close> as the spec describes it.
\<close>

theorem handleErr_degraded:
  assumes "err = Some e"
    and "15 \<le> fst (q_NumRequeues (queue optr) k (world s))"
    and "ext_syncDegradedStatus c = syncDegradedStatus_spec publish"
  shows "handleErr c optr err k s =
     \<lparr>world =
        q_Forget (queue optr) k
          (ext_HandleError c (Some e)
            (snd (publish Degraded (ErrorSyncingMessage (Some e))
               (snd (q_NumRequeues (queue optr) k (world s)))))),
      trace = trace s @
        [QueueNumRequeues k (fst (q_NumRequeues (queue optr) k (world s))),
         CallSyncDegradedStatus (Some e) (Some e),
         CallHandleError (Some e),
         Glog 2 (DroppingOperator k (Some e)),
         QueueForget k]\<rparr>"
  using assms
  by (cases "q_NumRequeues (queue optr) k (world s)")
     (simp add: handleErr_def call_defs maxRetries_def syncDegradedStatus_spec_def
           split: prod.splits)

theorem handleErr_degraded_witness:
  "trace (handleErr demo_collab demo_optr (Some (Opaque ''timeout'')) workQueueKey
      (start (wq_empty\<lparr>wq_failures := (\<lambda>k. 15)\<rparr>))) =
     [QueueNumRequeues workQueueKey 15,
      CallSyncDegradedStatus (Some (Opaque ''timeout'')) (Some (Opaque ''timeout'')),
      CallHandleError (Some (Opaque ''timeout'')),
      Glog 2 (DroppingOperator workQueueKey (Some (Opaque ''timeout''))),
      QueueForget workQueueKey]
   \<and> wq_failures (world (handleErr demo_collab demo_optr (Some (Opaque ''timeout''))
        workQueueKey (start (wq_empty\<lparr>wq_failures := (\<lambda>k. 15)\<rparr>)))) workQueueKey = 0
   \<and> wq_waiting (world (handleErr demo_collab demo_optr (Some (Opaque ''timeout''))
        workQueueKey (start (wq_empty\<lparr>wq_failures := (\<lambda>k. 15)\<rparr>)))) = []"
  using handleErr_degraded [of "Some (Opaque ''timeout'')" "Opaque ''timeout''" demo_optr
          workQueueKey "start (wq_empty\<lparr>wq_failures := (\<lambda>k. 15)\<rparr>)" demo_collab
          "\<lambda>t m w. (None, w)"]
  by (simp add: demo_defs)

subsection \<open>The sync pipeline\<close>

lemma syncCVOCRDs_run:
  "\<exists>r s'. syncCVOCRDs c s = (r, s') \<and> trace s' = trace s @ [CallSyncCVOCRDs r]"
  by (simp add: syncCVOCRDs_def emit_def split_def Let_def)

lemma getConfig_trace:
  "\<exists>inner. trace (snd (getConfig c optr s)) = trace s @ inner
     \<and> List.map_filter stage_of inner = []"
  by (simp add: getConfig_def NewRandom_def ApplyCVOConfigFromCache_def emit_def split_def
        Let_def)

lemma call_getConfig_run:
  "\<exists>config r s' inner. call_getConfig c optr s = ((config, r), s')
     \<and> trace s' = trace s @ inner @ [CallGetConfig config r]
     \<and> List.map_filter stage_of inner = []"
proof -
  obtain inner where "trace (snd (getConfig c optr s)) = trace s @ inner"
    and "List.map_filter stage_of inner = []"
    using getConfig_trace by blast
  then show ?thesis
    by (cases "getConfig c optr s") (auto simp: call_getConfig_def emit_def)
qed

lemma syncStatus_run:
  "\<exists>r s'. syncStatus c config cond s = (r, s')
     \<and> trace s' = trace s @ [CallSyncStatus config cond r]"
  by (simp add: syncStatus_def emit_def split_def Let_def)

lemma syncUpdatePayloadContents_run:
  "\<exists>payload r s'. syncUpdatePayloadContents c pp config s = ((payload, r), s')
     \<and> trace s' = trace s @ [CallSyncUpdatePayloadContents pp config payload r]"
  by (simp add: syncUpdatePayloadContents_def emit_def split_def Let_def)

lemma syncUpdatePayload_run:
  "\<exists>r s'. syncUpdatePayload c config payload s = (r, s')
     \<and> trace s' = trace s @ [CallSyncUpdatePayload config payload r]"
  by (simp add: syncUpdatePayload_def emit_def split_def Let_def)

lemma map_filter_append:
  "List.map_filter f (xs @ ys) = List.map_filter f xs @ List.map_filter f ys"
  by (simp add: List.map_filter_def)

lemmas log_simps =
  sync_stage_log_def new_events_def map_filter_append glogV_def emit_def stage_log_def

text \<open>
  The stage log of a run of \<open>sync\<close> has one of six shapes: the stages up to the first one
  that failed, or all six.
\<close>

lemma sync_shapes:
  fixes s :: "('w, 'p) exec" and c :: "('w, 'p) collaborators" and optr :: "'w Operator"
    and k :: key
  defines "r \<equiv> fst (sync c optr k s)"
    and "sl \<equiv> sync_stage_log c optr k s"
  shows "(sl = [(EnsureDefinitions, r)] \<and> r \<noteq> None)
     \<or> (sl = [(EnsureDefinitions, None), (ResolveConfig, r)] \<and> r \<noteq> None)
     \<or> (sl = [(EnsureDefinitions, None), (ResolveConfig, None), (PublishWorking, r)] \<and> r \<noteq> None)
     \<or> (sl = [(EnsureDefinitions, None), (ResolveConfig, None), (PublishWorking, None),
               (FetchPayload, r)] \<and> r \<noteq> None)
     \<or> (sl = [(EnsureDefinitions, None), (ResolveConfig, None), (PublishWorking, None),
               (FetchPayload, None), (ApplyPayload, r)] \<and> r \<noteq> None)
     \<or> sl = [(EnsureDefinitions, None), (ResolveConfig, None), (PublishWorking, None),
               (FetchPayload, None), (ApplyPayload, None), (PublishDone, r)]"
proof -
  let ?s0 = "glogV 4 (StartedSyncing k) s"
  have t0: "trace ?s0 = trace s @ [Glog 4 (StartedSyncing k)]"
    by (simp add: glogV_def emit_def)
  obtain r1 s1 where c1: "syncCVOCRDs c ?s0 = (r1, s1)"
    and t1: "trace s1 = trace ?s0 @ [CallSyncCVOCRDs r1]"
    using syncCVOCRDs_run by blast
  show ?thesis
  proof (cases r1)
    case (Some e)
    then have "sync c optr k s = (Some e, glogV 4 (FinishedSyncing k) s1)"
      by (simp add: sync_def c1)
    then show ?thesis
      by (simp add: r_def sl_def log_simps t1 t0 Some)
  next
    case n1: None
    obtain config r2 s2 inner where c2: "call_getConfig c optr s1 = ((config, r2), s2)"
      and t2: "trace s2 = trace s1 @ inner @ [CallGetConfig config r2]"
      and i2: "List.map_filter stage_of inner = []"
      using call_getConfig_run by blast
    show ?thesis
    proof (cases r2)
      case (Some e)
      then have "sync c optr k s = (Some e, glogV 4 (FinishedSyncing k) s2)"
        by (simp add: sync_def c1 n1 c2)
      then show ?thesis
        by (simp add: r_def sl_def log_simps t2 t1 t0 n1 i2 Some)
    next
      case n2: None
      let ?working = "\<lparr>cond_Type = Working, cond_Message = Sprintf ''Working towards %s'' config\<rparr>"
      obtain r3 s3 where c3: "syncStatus c config ?working s2 = (r3, s3)"
        and t3: "trace s3 = trace s2 @ [CallSyncStatus config ?working r3]"
        using syncStatus_run by blast
      show ?thesis
      proof (cases r3)
        case (Some e)
        then have "sync c optr k s = (Some e, glogV 4 (FinishedSyncing k) s3)"
          by (simp add: sync_def c1 n1 c2 n2 c3)
        then show ?thesis
          by (simp add: r_def sl_def log_simps t3 t2 t1 t0 n1 n2 i2 Some)
      next
        case n3: None
        obtain payload r4 s4 where
          c4: "syncUpdatePayloadContents c (updatePayloadsPathPrefix c) config s3
                 = ((payload, r4), s4)"
          and t4: "trace s4 = trace s3 @
                 [CallSyncUpdatePayloadContents (updatePayloadsPathPrefix c) config payload r4]"
          using syncUpdatePayloadContents_run by blast
        show ?thesis
        proof (cases r4)
          case (Some e)
          then have "sync c optr k s = (Some e, glogV 4 (FinishedSyncing k) s4)"
            by (simp add: sync_def c1 n1 c2 n2 c3 n3 c4)
          then show ?thesis
            by (simp add: r_def sl_def log_simps t4 t3 t2 t1 t0 n1 n2 n3 i2 Some)
        next
          case n4: None
          obtain r5 s5 where c5: "syncUpdatePayload c config payload s4 = (r5, s5)"
            and t5: "trace s5 = trace s4 @ [CallSyncUpdatePayload config payload r5]"
            using syncUpdatePayload_run by blast
          show ?thesis
          proof (cases r5)
            case (Some e)
            then have "sync c optr k s = (Some e, glogV 4 (FinishedSyncing k) s5)"
              by (simp add: sync_def c1 n1 c2 n2 c3 n3 c4 n4 c5)
            then show ?thesis
              by (simp add: r_def sl_def log_simps t5 t4 t3 t2 t1 t0 n1 n2 n3 n4 i2 Some)
          next
            case n5: None
            let ?done = "\<lparr>cond_Type = Done, cond_Message = Sprintf ''Done applying %s'' config\<rparr>"
            obtain r6 s6 where c6: "syncStatus c config ?done s5 = (r6, s6)"
              and t6: "trace s6 = trace s5 @ [CallSyncStatus config ?done r6]"
              using syncStatus_run by blast
            have "sync c optr k s = (r6, glogV 4 (FinishedSyncing k) s6)"
              by (simp add: sync_def c1 n1 c2 n2 c3 n3 c4 n4 c5 n5 c6)
            then show ?thesis
              by (simp add: r_def sl_def log_simps t6 t5 t4 t3 t2 t1 t0 n1 n2 n3 n4 n5 i2)
          qed
        qed
      qed
    qed
  qed
qed

text \<open>
  C3. \<open>sync\<close> invokes its stages in the strict order ensure resource definitions, resolve
  configuration, publish Working, fetch payload, apply payload, publish Done: the stages it
  ran are the first \<open>n\<close> of the six, every one but the last returned nil, and the last one's
  result is what \<open>sync\<close> returns, a non-nil error whenever fewer than six ran. In particular,
  when the payload fetch fails, neither the payload apply nor the Done publication is invoked
  and the result of \<open>sync\<close> is the fetch error.
\<close>

theorem sync_stages_in_order:
  "(\<exists>n. 1 \<le> n \<and> n \<le> 6
       \<and> sync_stage_log c optr k s =
           zip (take n all_stages) (replicate (n - 1) None @ [fst (sync c optr k s)])
       \<and> (n < 6 \<longrightarrow> fst (sync c optr k s) \<noteq> None))
   \<and> (\<forall>e. (FetchPayload, Some e) \<in> set (sync_stage_log c optr k s) \<longrightarrow>
          fst (sync c optr k s) = Some e
          \<and> ApplyPayload \<notin> fst ` set (sync_stage_log c optr k s)
          \<and> PublishDone \<notin> fst ` set (sync_stage_log c optr k s))"
proof -
  let ?r = "fst (sync c optr k s)" and ?sl = "sync_stage_log c optr k s"
  consider
      (s1) "?sl = [(EnsureDefinitions, ?r)]" "?r \<noteq> None"
    | (s2) "?sl = [(EnsureDefinitions, None), (ResolveConfig, ?r)]" "?r \<noteq> None"
    | (s3) "?sl = [(EnsureDefinitions, None), (ResolveConfig, None), (PublishWorking, ?r)]"
        "?r \<noteq> None"
    | (s4) "?sl = [(EnsureDefinitions, None), (ResolveConfig, None), (PublishWorking, None),
               (FetchPayload, ?r)]" "?r \<noteq> None"
    | (s5) "?sl = [(EnsureDefinitions, None), (ResolveConfig, None), (PublishWorking, None),
               (FetchPayload, None), (ApplyPayload, ?r)]" "?r \<noteq> None"
    | (s6) "?sl = [(EnsureDefinitions, None), (ResolveConfig, None), (PublishWorking, None),
               (FetchPayload, None), (ApplyPayload, None), (PublishDone, ?r)]"
    using sync_shapes [of c optr k s] by blast
  then show ?thesis
  proof cases
    case s1
    then show ?thesis
      by (auto simp: all_stages_def eval_nat_numeral intro!: exI [of _ "1::nat"])
  next
    case s2
    then show ?thesis
      by (auto simp: all_stages_def eval_nat_numeral intro!: exI [of _ "2::nat"])
  next
    case s3
    then show ?thesis
      by (auto simp: all_stages_def eval_nat_numeral intro!: exI [of _ "3::nat"])
  next
    case s4
    then show ?thesis
      by (auto simp: all_stages_def eval_nat_numeral intro!: exI [of _ "4::nat"])
  next
    case s5
    then show ?thesis
      by (auto simp: all_stages_def eval_nat_numeral intro!: exI [of _ "5::nat"])
  next
    case s6
    then show ?thesis
      by (auto simp: all_stages_def eval_nat_numeral intro!: exI [of _ "6::nat"])
  qed
qed

lemma fetch_fails_log:
  "sync_stage_log fetch_fails demo_optr workQueueKey (start wq_empty) =
     [(EnsureDefinitions, None), (ResolveConfig, None), (PublishWorking, None),
      (FetchPayload, Some (Opaque ''fetch failed''))]"
  by (simp add: sync_stage_log_def new_events_def stage_log_def
        sync_def call_getConfig_def getConfig_def syncCVOCRDs_def NewRandom_def
        ApplyCVOConfigFromCache_def syncStatus_def syncUpdatePayloadContents_def
        syncUpdatePayload_def glogV_def emit_def fetch_fails_def demo_collab_def
        start_def UUID_NewRandom_def UUID_Variant_def UUID_Version_def Let_def)

theorem sync_stages_in_order_witness:
  "(FetchPayload, Some (Opaque ''fetch failed''))
      \<in> set (sync_stage_log fetch_fails demo_optr workQueueKey (start wq_empty))
   \<and> fst (sync fetch_fails demo_optr workQueueKey (start wq_empty))
       = Some (Opaque ''fetch failed'')
   \<and> ApplyPayload
       \<notin> fst ` set (sync_stage_log fetch_fails demo_optr workQueueKey (start wq_empty))
   \<and> PublishDone
       \<notin> fst ` set (sync_stage_log fetch_fails demo_optr workQueueKey (start wq_empty))"
  using sync_stages_in_order [of fetch_fails demo_optr workQueueKey "start wq_empty"]
  by (simp add: fetch_fails_log)

subsection \<open>The config resolver\<close>

text \<open>
  C4. Whenever the generated cluster identifier has a variant other than RFC4122 or a version
  other than 4, \<open>getConfig\<close> returns a nil config and a non-nil error that names the
  identifier and what was found, and the apply-against-cache operation is not called in that
  run: the only call recorded is the generation, and the world is as generation left it.
\<close>

theorem getConfig_rejects_invalid_identifier:
  assumes "ext_NewRandom c (world s) = ((u, gen_err), w1)"
    and "uuid_Variant c u \<noteq> RFC4122 \<or> uuid_Version c u \<noteq> 4"
  shows "getConfig c optr s =
     ((None,
       Some (if uuid_Variant c u \<noteq> RFC4122
             then Errorf ''invalid ClusterID %q, must be an RFC4122-variant UUID: found %s''
                    u (ArgVariant (uuid_Variant c u))
             else Errorf ''Invalid ClusterID %q, must be a version-4 UUID: found %s''
                    u (ArgVersion (uuid_Version c u)))),
      s\<lparr>world := w1, trace := trace s @ [CallNewRandom u gen_err]\<rparr>)"
  using assms by (auto simp: getConfig_def NewRandom_def emit_def)

theorem getConfig_rejects_invalid_identifier_witness:
  "fst (getConfig bad_generator demo_optr (start wq_empty)) =
     (None,
      Some (Errorf ''invalid ClusterID %q, must be an RFC4122-variant UUID: found %s''
              (replicate 16 0xff) (ArgVariant Future)))
   \<and> trace (snd (getConfig bad_generator demo_optr (start wq_empty))) =
       [CallNewRandom (replicate 16 0xff) None]"
  using getConfig_rejects_invalid_identifier [of bad_generator "start wq_empty"
          "replicate 16 0xff" None wq_empty demo_optr]
  by (simp add: bad_generator_def demo_collab_def start_def UUID_Variant_def)

subsection \<open>The worker\<close>

text \<open>
  C5, as the code has it. In a call of \<open>processNextWorkItem\<close> that dequeues a key, the order
  is: \<open>Get()\<close> returns the key, the sync handler is invoked with the key, the returned error
  (or nil) is fed into the retry-handling policy, and \<open>Done(key)\<close> is called last, since it
  is deferred.
\<close>

theorem processNextWorkItem_order:
  assumes "q_Get (queue optr) (world s) = Some ((k, False), w1)"
    and "syncHandler optr k w1 = (Returns err, w2)"
  shows "fst (processNextWorkItem c optr s) = Returned True
     \<and> trace (snd (processNextWorkItem c optr s)) =
         trace s @ [QueueGet k False] @ [CallSyncHandler k (Returns err)]
           @ policy_events c optr err k w2 @ [QueueDone k]
     \<and> world (snd (processNextWorkItem c optr s)) =
         q_Done (queue optr) k (world (handleErr c optr err k (start w2)))"
  using assms
  by (simp add: processNextWorkItem_def queue_Get_def call_syncHandler_def queue_Done_def
        emit_def handleErr_trace handleErr_world [of c optr err k "_\<lparr>trace := _\<rparr>"])

theorem processNextWorkItem_order_witness:
  "fst (processNextWorkItem demo_collab demo_optr (start (wq_Add workQueueKey wq_empty)))
     = Returned True
   \<and> trace (snd (processNextWorkItem demo_collab demo_optr
        (start (wq_Add workQueueKey wq_empty)))) =
     [QueueGet workQueueKey False, CallSyncHandler workQueueKey (Returns None),
      QueueForget workQueueKey, QueueDone workQueueKey]"
  using processNextWorkItem_order [of demo_optr "start (wq_Add workQueueKey wq_empty)"
          workQueueKey "snd (the (wq_Get (wq_Add workQueueKey wq_empty)))" None
          "snd (the (wq_Get (wq_Add workQueueKey wq_empty)))" demo_collab]
  by (simp add: demo_defs policy_events_def handleErr_def call_defs)

text \<open>
  C5 as the claim words it puts \<open>Done(key)\<close> before the retry-handling policy. On a queue
  holding the work key, with a sync that succeeds, the policy's \<open>Forget\<close> is recorded before
  \<open>Done\<close>, not after it.
\<close>

theorem done_before_policy_counterexample:
  "\<not> comes_before (QueueDone workQueueKey) (QueueForget workQueueKey)
       (trace (snd (processNextWorkItem demo_collab demo_optr
          (start (wq_Add workQueueKey wq_empty)))))
   \<and> comes_before (QueueForget workQueueKey) (QueueDone workQueueKey)
       (trace (snd (processNextWorkItem demo_collab demo_optr
          (start (wq_Add workQueueKey wq_empty)))))"
  by (simp add: comes_before_def processNextWorkItem_def call_syncHandler_def
        handleErr_def call_defs demo_defs workQueueKey_def)

text \<open>
  C9. For every call of \<open>processNextWorkItem\<close> in which \<open>Get()\<close> returns: if it signals
  shutdown the call returns false and touches the queue no further; otherwise \<open>Done(key)\<close>
  is called exactly once for the dequeued key, as the last thing before the call is left,
  also when the sync handler panics, and the call returns true unless the handler panicked.
\<close>

theorem processNextWorkItem_done_once:
  "(\<forall>k w1. q_Get (queue optr) (world s) = Some ((k, True), w1) \<longrightarrow>
      processNextWorkItem c optr s =
        (Returned False, \<lparr>world = w1, trace = trace s @ [QueueGet k True]\<rparr>))
   \<and> (\<forall>k w1. q_Get (queue optr) (world s) = Some ((k, False), w1) \<longrightarrow>
      filter is_Done (drop (length (trace s)) (trace (snd (processNextWorkItem c optr s))))
        = [QueueDone k]
      \<and> last (trace (snd (processNextWorkItem c optr s))) = QueueDone k
      \<and> fst (processNextWorkItem c optr s) =
          (case fst (syncHandler optr k w1) of
             Returns err \<Rightarrow> Returned True
           | Panics \<Rightarrow> Panicked))"
proof (intro conjI allI impI)
  fix k w1
  assume "q_Get (queue optr) (world s) = Some ((k, True), w1)"
  then show "processNextWorkItem c optr s =
      (Returned False, \<lparr>world = w1, trace = trace s @ [QueueGet k True]\<rparr>)"
    by (simp add: processNextWorkItem_def queue_Get_def emit_def)
next
  fix k w1
  assume g: "q_Get (queue optr) (world s) = Some ((k, False), w1)"
  obtain r w2 where h: "syncHandler optr k w1 = (r, w2)"
    by (cases "syncHandler optr k w1")
  have run: "processNextWorkItem c optr s =
      (case r of
         Panics \<Rightarrow>
           (Panicked,
            queue_Done optr k
              (s\<lparr>world := w2, trace := trace s @ [QueueGet k False, CallSyncHandler k r]\<rparr>))
       | Returns err \<Rightarrow>
           (Returned True,
            queue_Done optr k
              (handleErr c optr err k
                 (s\<lparr>world := w2,
                    trace := trace s @ [QueueGet k False, CallSyncHandler k r]\<rparr>))))"
    using g h
    by (simp add: processNextWorkItem_def queue_Get_def call_syncHandler_def emit_def
             split: handler_outcome.splits)
  show "filter is_Done (drop (length (trace s)) (trace (snd (processNextWorkItem c optr s))))
      = [QueueDone k]"
    by (cases r) (simp_all add: run queue_Done_def emit_def handleErr_trace policy_events_no_Done)
  show "last (trace (snd (processNextWorkItem c optr s))) = QueueDone k"
    by (cases r) (simp_all add: run queue_Done_def emit_def)
  show "fst (processNextWorkItem c optr s) =
      (case fst (syncHandler optr k w1) of Returns err \<Rightarrow> Returned True | Panics \<Rightarrow> Panicked)"
    by (cases r) (simp_all add: run h)
qed

theorem processNextWorkItem_done_once_witness:
  "processNextWorkItem demo_collab demo_optr (start (wq_empty\<lparr>wq_shuttingDown := True\<rparr>)) =
     (Returned False,
      \<lparr>world = wq_empty\<lparr>wq_shuttingDown := True\<rparr>, trace = [QueueGet [] True]\<rparr>)
   \<and> filter is_Done (trace (snd (processNextWorkItem demo_collab panicking_optr
         (start (wq_Add workQueueKey wq_empty))))) = [QueueDone workQueueKey]
   \<and> fst (processNextWorkItem demo_collab panicking_optr
         (start (wq_Add workQueueKey wq_empty))) = Panicked"
  using processNextWorkItem_done_once [of demo_optr
          "start (wq_empty\<lparr>wq_shuttingDown := True\<rparr>)" demo_collab]
        processNextWorkItem_done_once [of panicking_optr
          "start (wq_Add workQueueKey wq_empty)" demo_collab]
  by (simp add: demo_defs panicking_optr_def)

subsection \<open>The event bridge\<close>

text \<open>
  C6. Every add, update or delete notification from a watched informer (the CVOConfig and the
  CRD informer), an update with identical old and new objects included, performs exactly one
  \<open>Add\<close> of the fixed work key on the queue; the objects it carries play no part.
\<close>

theorem eventHandler_enqueues_fixed_key:
  "src = cvoConfigInformer \<or> src = crdInformer \<Longrightarrow>
   notify optr src n s =
     \<lparr>world = q_Add (queue optr) workQueueKey (world s),
      trace = trace s @ [QueueAdd workQueueKey]\<rparr>"
  by (cases n) (auto simp: notify_def New_handlers_def eventHandler_def queue_Add_def emit_def)

theorem eventHandler_enqueues_fixed_key_witness:
  "trace (notify demo_optr crdInformer (OnUpdate (0::nat) 0)
            (start wq_empty :: (workqueue, nat) exec)) = [QueueAdd workQueueKey]
   \<and> wq_items (world (notify demo_optr crdInformer (OnUpdate (0::nat) 0)
            (start wq_empty :: (workqueue, nat) exec))) = [workQueueKey]"
  using eventHandler_enqueues_fixed_key [of crdInformer demo_optr "OnUpdate (0::nat) 0"
          "start wq_empty :: (workqueue, nat) exec"]
  by (simp add: demo_defs)

subsection \<open>The generated identifier\<close>

lemma version_bits: "drop_bit 4 ((b AND 0x0f) OR 0x40) = (4 :: 8 word)"
proof -
  have m: "(0x0f :: 8 word) = mask 4" "(0x40 :: 8 word) = push_bit 6 1"
    "(4 :: 8 word) = push_bit 2 1"
    by (simp_all add: mask_eq_exp_minus_1)
  show ?thesis
    unfolding m by (rule bit_word_eqI) (auto simp: bit_simps)
qed

lemma variant_bits: "((b AND 0x3f) OR 0x80) AND 0xc0 = (0x80 :: 8 word)"
proof -
  have m: "(0x3f :: 8 word) = mask 6" "(0xc0 :: 8 word) = push_bit 6 (mask 2)"
    "(0x80 :: 8 word) = push_bit 7 1"
    by (simp_all add: mask_eq_exp_minus_1)
  show ?thesis
    unfolding m
    by (rule bit_word_eqI)
       (simp only: bit_and_iff bit_or_iff bit_mask_iff bit_push_bit_iff bit_1_iff
          possible_bit_word, auto)
qed

lemma NewRandom_success:
  assumes "rd w = (bs, w1)" and "16 \<le> length bs"
  shows "\<exists>u. UUID_NewRandom rd w = ((u, None), w1) \<and> length u = 16
     \<and> UUID_Variant u = RFC4122 \<and> UUID_Version u = 4"
  using assms
  by (simp add: UUID_NewRandom_def Let_def UUID_Variant_def UUID_Version_def
        version_bits variant_bits)

lemma NewRandom_failure:
  assumes "rd w = (bs, w1)" and "length bs < 16"
  shows "UUID_NewRandom rd w = ((Nil_UUID, Some (Opaque ''unexpected EOF'')), w1)"
  using assms by (simp add: UUID_NewRandom_def)

lemma Nil_UUID_Variant: "UUID_Variant Nil_UUID = Reserved"
  by (simp add: UUID_Variant_def Nil_UUID_def)

text \<open>
  C10. \<open>getConfig\<close> discards the error of the identifier generation: what it returns does
  not depend on it. With the generator of the \<open>uuid\<close> package, a generation that succeeds
  yields a version-4 RFC4122 identifier, so \<open>getConfig\<close> passes both checks and goes on to the
  apply-against-cache operation; a generation that fails yields the zero-value identifier,
  and the variant check rejects it.
\<close>

theorem getConfig_generated_identifier:
  assumes "ext_NewRandom c = UUID_NewRandom rd"
    and "uuid_Variant c = UUID_Variant" and "uuid_Version c = UUID_Version"
    and "rd (world s) = (bs, w1)"
  shows "(16 \<le> length bs \<longrightarrow>
      (\<exists>u. ext_NewRandom c (world s) = ((u, None), w1)
         \<and> UUID_Variant u = RFC4122 \<and> UUID_Version u = 4
         \<and> getConfig c optr s =
             ApplyCVOConfigFromCache c
               \<lparr>Namespace = namespace optr, Name = name optr,
                Upstream = ''http://localhost:8080/graph'', Channel = ''fast'',
                ClusterID = u\<rparr>
               (s\<lparr>world := w1, trace := trace s @ [CallNewRandom u None]\<rparr>)))
   \<and> (length bs < 16 \<longrightarrow>
      getConfig c optr s =
        ((None,
          Some (Errorf ''invalid ClusterID %q, must be an RFC4122-variant UUID: found %s''
                  Nil_UUID (ArgVariant Reserved))),
         s\<lparr>world := w1,
           trace := trace s @ [CallNewRandom Nil_UUID (Some (Opaque ''unexpected EOF''))]\<rparr>))
   \<and> (\<forall>e'. fst (getConfig
                   (c\<lparr>ext_NewRandom :=
                        (\<lambda>w. ((fst (fst (ext_NewRandom c w)), e'), snd (ext_NewRandom c w)))\<rparr>)
                   optr s)
           = fst (getConfig c optr s))"
proof (intro conjI impI allI)
  assume "16 \<le> length bs"
  then obtain u where u: "UUID_NewRandom rd (world s) = ((u, None), w1)"
    "UUID_Variant u = RFC4122" "UUID_Version u = 4"
    using NewRandom_success [of rd "world s" bs w1] assms(4) by blast
  then show "\<exists>u. ext_NewRandom c (world s) = ((u, None), w1)
         \<and> UUID_Variant u = RFC4122 \<and> UUID_Version u = 4
         \<and> getConfig c optr s =
             ApplyCVOConfigFromCache c
               \<lparr>Namespace = namespace optr, Name = name optr,
                Upstream = ''http://localhost:8080/graph'', Channel = ''fast'',
                ClusterID = u\<rparr>
               (s\<lparr>world := w1, trace := trace s @ [CallNewRandom u None]\<rparr>)"
    by (simp add: assms(1-3) getConfig_def NewRandom_def emit_def)
next
  assume "length bs < 16"
  then have "UUID_NewRandom rd (world s) = ((Nil_UUID, Some (Opaque ''unexpected EOF'')), w1)"
    using NewRandom_failure [of rd "world s" bs w1] assms(4) by blast
  then show "getConfig c optr s =
        ((None,
          Some (Errorf ''invalid ClusterID %q, must be an RFC4122-variant UUID: found %s''
                  Nil_UUID (ArgVariant Reserved))),
         s\<lparr>world := w1,
           trace := trace s @ [CallNewRandom Nil_UUID (Some (Opaque ''unexpected EOF''))]\<rparr>)"
    by (simp add: assms(1-3) getConfig_def NewRandom_def emit_def Nil_UUID_Variant)
next
  fix e'
  show "fst (getConfig
               (c\<lparr>ext_NewRandom :=
                    (\<lambda>w. ((fst (fst (ext_NewRandom c w)), e'), snd (ext_NewRandom c w)))\<rparr>)
               optr s)
           = fst (getConfig c optr s)"
    by (simp add: getConfig_def NewRandom_def ApplyCVOConfigFromCache_def emit_def split_def
          Let_def)
qed

theorem getConfig_generated_identifier_witness:
  "fst (getConfig demo_collab demo_optr (start wq_empty)) =
     (Some \<lparr>Namespace = ''openshift-cluster-version'', Name = ''cluster-version-operator'',
            Upstream = ''http://localhost:8080/graph'', Channel = ''fast'',
            ClusterID = [1, 2, 3, 4, 5, 6, 0x47, 8, 0x89, 10, 11, 12, 13, 14, 15, 16]\<rparr>,
      None)
   \<and> fst (getConfig no_entropy demo_optr (start wq_empty)) =
     (None,
      Some (Errorf ''invalid ClusterID %q, must be an RFC4122-variant UUID: found %s''
              Nil_UUID (ArgVariant Reserved)))"
  using getConfig_generated_identifier [of demo_collab
          "\<lambda>w. ([1, 2, 3, 4, 5, 6, 7, 8, 9, 10, 11, 12, 13, 14, 15, 16], w)"
          "start wq_empty" "[1, 2, 3, 4, 5, 6, 7, 8, 9, 10, 11, 12, 13, 14, 15, 16]" wq_empty
          demo_optr]
        getConfig_generated_identifier [of no_entropy "\<lambda>w. ([], w)" "start wq_empty" "[]"
          wq_empty demo_optr]
  by (simp add: no_entropy_def demo_collab_def demo_optr_def start_def
        ApplyCVOConfigFromCache_def emit_def UUID_NewRandom_def)

subsection \<open>Workers and triggers side by side\<close>

lemma const_upd: "(\<lambda>x. v)(k := v) = (\<lambda>x. v)"
  by auto

lemma filter_update_length:
  "i < length xs \<Longrightarrow>
   length (filter P (xs[i := x])) + (if P (xs ! i) then 1 else 0)
     = length (filter P xs) + (if P x then 1 else 0)"
proof (induction xs arbitrary: i)
  case Nil
  then show ?case by simp
next
  case (Cons y ys)
  then show ?case by (cases i) auto
qed

lemma notify_world:
  assumes "queue optr = workqueue_interface ceiling"
  shows "world (notify optr src n (start w)) =
     (if src = cvoConfigInformer \<or> src = crdInformer then wq_Add workQueueKey w else w)"
  using assms
  by (cases n; cases src)
     (simp_all add: notify_def New_handlers_def eventHandler_def queue_Add_def emit_def
        start_def workqueue_interface_def)

lemma handleErr_queue:
  assumes "queue optr = workqueue_interface ceiling" and "leaves_queue c"
  shows "world (handleErr c optr err k (start w)) =
     (case err of
        None \<Rightarrow> wq_Forget k w
      | Some e \<Rightarrow>
          if wq_failures w k < 15 then wq_AddRateLimited ceiling k w else wq_Forget k w)"
  using assms
  by (simp add: handleErr_def call_defs start_def workqueue_interface_def wq_NumRequeues_def
        maxRetries_def leaves_queue_def split_def Let_def split: option.splits)

lemma wq_Add_inv:
  assumes "distinct (wq_items q)" and "set (wq_items q) \<subseteq> wq_dirty q"
    and "set (wq_items q) \<inter> wq_processing q = {}"
    and "wq_dirty q \<subseteq> set (wq_items q) \<union> wq_processing q"
  shows "distinct (wq_items (wq_Add k q))"
    and "set (wq_items (wq_Add k q)) \<subseteq> wq_dirty (wq_Add k q)"
    and "set (wq_items (wq_Add k q)) \<inter> wq_processing (wq_Add k q) = {}"
    and "wq_dirty (wq_Add k q) \<subseteq> set (wq_items (wq_Add k q)) \<union> wq_processing (wq_Add k q)"
    and "wq_processing (wq_Add k q) = wq_processing q"
  using assms by (auto simp: wq_Add_def)

lemma sys_step_inv:
  assumes q: "queue optr = workqueue_interface ceiling" and lq: "leaves_queue c"
    and inv: "sys_inv s" and step: "sys_step c optr a s = Some s'"
  shows "sys_inv s'"
proof (cases a)
  case (Notify src n)
  then have s': "s' = s\<lparr>sys_queue :=
      (if src = cvoConfigInformer \<or> src = crdInformer
       then wq_Add workQueueKey (sys_queue s) else sys_queue s)\<rparr>"
    using step by (simp add: notify_world [OF q])
  show ?thesis
    using inv wq_Add_inv [of "sys_queue s" workQueueKey]
    by (simp add: s' sys_inv_def holders_def)
next
  case (TimerFires i)
  let ?q = "(sys_queue s)\<lparr>wq_waiting :=
      take i (wq_waiting (sys_queue s)) @ drop (Suc i) (wq_waiting (sys_queue s))\<rparr>"
  from TimerFires step have s': "s' = s\<lparr>sys_queue :=
      wq_Add (fst (wq_waiting (sys_queue s) ! i)) ?q\<rparr>"
    by (auto simp: wq_fire_def split: if_splits)
  show ?thesis
    using inv wq_Add_inv [of ?q "fst (wq_waiting (sys_queue s) ! i)"]
    by (simp add: s' sys_inv_def holders_def)
next
  case (WorkerGet i)
  with step have i: "i < length (sys_workers s)" and idle: "sys_workers s ! i = Idle"
    by (auto split: if_splits)
  show ?thesis
  proof (cases "wq_items (sys_queue s)")
    case Nil
    with WorkerGet step i idle q
    have s': "s' = s\<lparr>sys_workers := (sys_workers s)[i := Stopped]\<rparr>"
      by (auto simp: queue_Get_def start_def workqueue_interface_def wq_Get_def emit_def
               split: if_splits)
    have "\<And>k. holders k s' = holders k s"
      using filter_update_length [OF i, of "holds k" Stopped for k] idle
      by (simp add: s' holders_def holds_def)
    then show ?thesis using inv by (simp add: sys_inv_def s')
  next
    case (Cons k ks)
    with WorkerGet step i idle q
    have s': "s' = \<lparr>sys_queue = (sys_queue s)\<lparr>wq_items := ks,
                       wq_processing := insert k (wq_processing (sys_queue s)),
                       wq_dirty := wq_dirty (sys_queue s) - {k}\<rparr>,
                    sys_workers = (sys_workers s)[i := Syncing k]\<rparr>"
      by (auto simp: queue_Get_def start_def workqueue_interface_def wq_Get_def emit_def)
    have kp: "k \<notin> wq_processing (sys_queue s)" and kk: "k \<notin> set ks" and "distinct ks"
      using inv Cons by (auto simp: sys_inv_def)
    have h: "\<And>k'. holders k' s' = holders k' s + (if k' = k then 1 else 0)"
      using filter_update_length [OF i, of "holds k'" "Syncing k" for k'] idle
      by (simp add: s' holders_def holds_def)
    show ?thesis
      using inv Cons kp kk by (auto simp: sys_inv_def h) (auto simp: s')
  qed
next
  case (SyncReturns i err)
  with step obtain k where i: "i < length (sys_workers s)"
    and pc: "sys_workers s ! i = Syncing k"
    and s': "s' = \<lparr>sys_queue = world (handleErr c optr err k (start (sys_queue s))),
                    sys_workers = (sys_workers s)[i := Handled k]\<rparr>"
    by (auto split: if_splits worker_pc.splits)
  have h: "\<And>k'. holders k' s' = holders k' s"
    using filter_update_length [OF i, of "holds k'" "Handled k" for k'] pc
    by (simp add: s' holders_def holds_def)
  have core: "wq_items (sys_queue s') = wq_items (sys_queue s)"
    "wq_dirty (sys_queue s') = wq_dirty (sys_queue s)"
    "wq_processing (sys_queue s') = wq_processing (sys_queue s)"
    by (simp_all add: s' handleErr_queue [OF q lq] wq_Forget_def wq_AddRateLimited_def
          split: option.splits)
  show ?thesis using inv by (simp add: sys_inv_def h core)
next
  case (SyncPanics i)
  with step obtain k where i: "i < length (sys_workers s)"
    and pc: "sys_workers s ! i = Syncing k"
    and s': "s' = \<lparr>sys_queue = wq_Done k (sys_queue s),
                    sys_workers = (sys_workers s)[i := Stopped]\<rparr>"
    using q
    by (auto simp: queue_Done_def emit_def start_def workqueue_interface_def
             split: if_splits worker_pc.splits)
  have "holds k (sys_workers s ! i)" by (simp add: pc holds_def)
  then have "holders k s \<noteq> 0"
    using i by (auto simp: holders_def filter_empty_conv dest: nth_mem)
  then have kp: "k \<in> wq_processing (sys_queue s)"
    using inv by (auto simp: sys_inv_def split: if_splits)
  then have kq: "k \<notin> set (wq_items (sys_queue s))"
    using inv by (auto simp: sys_inv_def)
  have h: "holders k' s' + (if k' = k then 1 else 0) = holders k' s" for k'
    using filter_update_length [OF i, of "holds k'" Stopped] pc
    by (auto simp: s' holders_def holds_def)
  have h': "\<And>k'. holders k' s' = (if k' = k then 0 else holders k' s)"
  proof -
    fix k'
    have "holders k s = 1" using inv kp by (simp add: sys_inv_def)
    then show "holders k' s' = (if k' = k then 0 else holders k' s)"
      using h [of k'] by (simp split: if_splits)
  qed
  show ?thesis
    using inv kp kq by (auto simp: sys_inv_def h') (auto simp: s' wq_Done_def split: if_splits)
next
  case (WorkerDone i)
  with step obtain k where i: "i < length (sys_workers s)"
    and pc: "sys_workers s ! i = Handled k"
    and s': "s' = \<lparr>sys_queue = wq_Done k (sys_queue s),
                    sys_workers = (sys_workers s)[i := Idle]\<rparr>"
    using q
    by (auto simp: queue_Done_def emit_def start_def workqueue_interface_def
             split: if_splits worker_pc.splits)
  have "holds k (sys_workers s ! i)" by (simp add: pc holds_def)
  then have "holders k s \<noteq> 0"
    using i by (auto simp: holders_def filter_empty_conv dest: nth_mem)
  then have kp: "k \<in> wq_processing (sys_queue s)"
    using inv by (auto simp: sys_inv_def split: if_splits)
  then have kq: "k \<notin> set (wq_items (sys_queue s))"
    using inv by (auto simp: sys_inv_def)
  have h: "holders k' s' + (if k' = k then 1 else 0) = holders k' s" for k'
    using filter_update_length [OF i, of "holds k'" Idle] pc
    by (auto simp: s' holders_def holds_def)
  have h': "\<And>k'. holders k' s' = (if k' = k then 0 else holders k' s)"
  proof -
    fix k'
    have "holders k s = 1" using inv kp by (simp add: sys_inv_def)
    then show "holders k' s' = (if k' = k then 0 else holders k' s)"
      using h [of k'] by (simp split: if_splits)
  qed
  show ?thesis
    using inv kp kq by (auto simp: sys_inv_def h') (auto simp: s' wq_Done_def split: if_splits)
next
  case Drain
  with step have "s' = s\<lparr>sys_queue := wq_ShutDown (sys_queue s)\<rparr>"
    by simp
  then show ?thesis
    using inv by (simp add: sys_inv_def holders_def wq_ShutDown_def)
qed


lemma sys_init_inv: "sys_inv (sys_init N)"
  by (simp add: sys_inv_def sys_init_def wq_empty_def holders_def holds_def)

lemma sys_run_inv:
  assumes "queue optr = workqueue_interface ceiling" and "leaves_queue c"
  shows "sys_inv s \<Longrightarrow> sys_run c optr acts s = Some s' \<Longrightarrow> sys_inv s'"
proof (induction acts arbitrary: s)
  case Nil
  then show ?case by simp
next
  case (Cons a acts)
  then show ?case
    by (auto split: option.splits dest: sys_step_inv [OF assms])
qed

lemma count_list_distinct:
  "distinct xs \<Longrightarrow> count_list xs k = (if k \<in> set xs then 1 else 0)"
  by (induction xs) auto

lemma wq_Add_idem: "wq_Add k (wq_Add k q) = wq_Add k q"
  by (simp add: wq_Add_def)

lemma notify_many:
  assumes "queue optr = workqueue_interface ceiling"
    and "src = cvoConfigInformer \<or> src = crdInformer" and "0 < K"
  shows "sys_run c optr (replicate K (Notify src n)) s =
     Some (s\<lparr>sys_queue := wq_Add workQueueKey (sys_queue s)\<rparr>)"
  using assms(3)
proof (induction K arbitrary: s)
  case 0
  then show ?case by simp
next
  case (Suc K)
  show ?case
  proof (cases K)
    case 0
    then show ?thesis using assms(2) by (simp add: notify_world [OF assms(1)])
  next
    case (Suc K')
    then show ?thesis
      using Suc.IH [of "s\<lparr>sys_queue := wq_Add workQueueKey (sys_queue s)\<rparr>"] assms(2)
      by (simp add: notify_world [OF assms(1)] wq_Add_idem)
  qed
qed

text \<open>
  C8. In every state that workers, notifications and timers can reach, no key is held by more
  than one worker (a fresh enqueue never starts a second sync beside the one in flight), no
  key is pending more than once, and a key in flight is not pending. Any number of
  notifications, one or more, leaves exactly one pending processing of the work key when it
  is not in flight; while it is in flight they leave none pending, and the \<open>Done\<close> that ends
  the flight makes the key pending exactly once.
\<close>

theorem single_flight_and_coalescing:
  assumes "queue optr = workqueue_interface ceiling" and "leaves_queue c"
    and "sys_run c optr acts (sys_init N) = Some s"
  shows "(\<forall>k. holders k s \<le> 1)
     \<and> (\<forall>k. count_list (wq_items (sys_queue s)) k \<le> 1)
     \<and> (\<forall>k. 0 < holders k s \<longrightarrow> k \<notin> set (wq_items (sys_queue s)))
     \<and> (\<forall>K src (n :: 'o notification).
          0 < K \<and> (src = cvoConfigInformer \<or> src = crdInformer) \<longrightarrow>
          (\<exists>s'. sys_run c optr (replicate K (Notify src n)) s = Some s'
             \<and> sys_workers s' = sys_workers s
             \<and> count_list (wq_items (sys_queue s')) workQueueKey =
                 (if holders workQueueKey s = 0 then 1 else 0)
             \<and> (\<forall>i s''. sys_step c optr (WorkerDone i :: 'o action) s' = Some s''
                   \<and> sys_workers s ! i = Handled workQueueKey \<longrightarrow>
                   count_list (wq_items (sys_queue s'')) workQueueKey = 1
                   \<and> holders workQueueKey s'' = 0)))"
proof -
  have inv: "sys_inv s"
    using sys_run_inv [OF assms(1,2) sys_init_inv assms(3)] .
  have a: "\<forall>k. holders k s \<le> 1"
    using inv by (simp add: sys_inv_def)
  have b: "\<forall>k. count_list (wq_items (sys_queue s)) k \<le> 1"
    using inv by (simp add: sys_inv_def count_list_distinct)
  have c: "\<forall>k. 0 < holders k s \<longrightarrow> k \<notin> set (wq_items (sys_queue s))"
    using inv by (auto simp: sys_inv_def split: if_splits)
  have d: "\<exists>s'. sys_run c optr (replicate K (Notify src n)) s = Some s'
             \<and> sys_workers s' = sys_workers s
             \<and> count_list (wq_items (sys_queue s')) workQueueKey =
                 (if holders workQueueKey s = 0 then 1 else 0)
             \<and> (\<forall>i s''. sys_step c optr (WorkerDone i :: 'o action) s' = Some s''
                   \<and> sys_workers s ! i = Handled workQueueKey \<longrightarrow>
                   count_list (wq_items (sys_queue s'')) workQueueKey = 1
                   \<and> holders workQueueKey s'' = 0)"
    if K: "0 < K" and src: "src = cvoConfigInformer \<or> src = crdInformer"
    for K src and n :: "'o notification"
  proof -
    let ?s' = "s\<lparr>sys_queue := wq_Add workQueueKey (sys_queue s)\<rparr>"
    have run: "sys_run c optr (replicate K (Notify src n)) s = Some ?s'"
      by (rule notify_many [OF assms(1) src K])
    have inv': "sys_inv ?s'"
      using sys_run_inv [OF assms(1,2) inv run] .
    have hs: "holders k ?s' = holders k s" for k
      by (simp add: holders_def)
    have dirty: "workQueueKey \<in> wq_dirty (sys_queue ?s')"
      by (simp add: wq_Add_def)
    have proc: "wq_processing (sys_queue ?s') = wq_processing (sys_queue s)"
      by (simp add: wq_Add_def)
    have cnt: "count_list (wq_items (sys_queue ?s')) workQueueKey =
        (if holders workQueueKey s = 0 then 1 else 0)"
      using inv' dirty inv proc
      by (auto simp: sys_inv_def count_list_distinct hs split: if_splits)
    have follow: "count_list (wq_items (sys_queue s'')) workQueueKey = 1
        \<and> holders workQueueKey s'' = 0"
      if st: "sys_step c optr (WorkerDone i :: 'o action) ?s' = Some s''"
        and pc: "sys_workers s ! i = Handled workQueueKey" for i s''
    proof -
      have inv'': "sys_inv s''"
        using sys_step_inv [OF assms(1,2) inv' st] .
      have q'': "sys_queue s'' = wq_Done workQueueKey (sys_queue ?s')"
        using st pc assms(1)
        by (auto simp: queue_Done_def emit_def start_def workqueue_interface_def
                 split: if_splits)
      have "workQueueKey \<in> set (wq_items (sys_queue s''))"
        "workQueueKey \<notin> wq_processing (sys_queue s'')"
        using dirty by (simp_all add: q'' wq_Done_def)
      then show ?thesis
        using inv'' by (auto simp: sys_inv_def count_list_distinct)
    qed
    show ?thesis
    proof (rule exI [of _ ?s'], intro conjI allI impI)
      show "sys_run c optr (replicate K (Notify src n)) s = Some ?s'"
        by (rule run)
      show "sys_workers ?s' = sys_workers s"
        by simp
      show "count_list (wq_items (sys_queue ?s')) workQueueKey =
          (if holders workQueueKey s = 0 then 1 else 0)"
        by (rule cnt)
    next
      fix i s''
      assume "sys_step c optr (WorkerDone i :: 'o action) ?s' = Some s''
          \<and> sys_workers s ! i = Handled workQueueKey"
      then show "count_list (wq_items (sys_queue s'')) workQueueKey = 1"
        using follow [of i s''] by (simp only:)
    next
      fix i s''
      assume "sys_step c optr (WorkerDone i :: 'o action) ?s' = Some s''
          \<and> sys_workers s ! i = Handled workQueueKey"
      then show "holders workQueueKey s'' = 0"
        using follow [of i s''] by (simp only:)
    qed
  qed
  show ?thesis
  proof (intro conjI)
    show "\<forall>K src n. 0 < K \<and> (src = cvoConfigInformer \<or> src = crdInformer) \<longrightarrow>
        (\<exists>s'. sys_run c optr (replicate K (Notify src (n :: 'o notification))) s = Some s'
           \<and> sys_workers s' = sys_workers s
           \<and> count_list (wq_items (sys_queue s')) workQueueKey =
               (if holders workQueueKey s = 0 then 1 else 0)
           \<and> (\<forall>i s''. sys_step c optr (WorkerDone i :: 'o action) s' = Some s''
                 \<and> sys_workers s ! i = Handled workQueueKey \<longrightarrow>
                 count_list (wq_items (sys_queue s'')) workQueueKey = 1
                 \<and> holders workQueueKey s'' = 0))"
    proof (intro allI impI)
      fix K :: nat and src :: informer and n :: "'o notification"
      assume "0 < K \<and> (src = cvoConfigInformer \<or> src = crdInformer)"
      then show "\<exists>s'. sys_run c optr (replicate K (Notify src n)) s = Some s'
           \<and> sys_workers s' = sys_workers s
           \<and> count_list (wq_items (sys_queue s')) workQueueKey =
               (if holders workQueueKey s = 0 then 1 else 0)
           \<and> (\<forall>i s''. sys_step c optr (WorkerDone i :: 'o action) s' = Some s''
                 \<and> sys_workers s ! i = Handled workQueueKey \<longrightarrow>
                 count_list (wq_items (sys_queue s'')) workQueueKey = 1
                 \<and> holders workQueueKey s'' = 0)"
        using d [of K src n] by (simp only:)
    qed
  qed (rule a b c)+
qed

lemma demo_optr_queue: "queue demo_optr = workqueue_interface 1000000"
  by (simp add: demo_optr_def)

lemma leaves_queue_demo: "leaves_queue demo_collab"
  by (simp add: leaves_queue_def demo_collab_def syncDegradedStatus_spec_def)

lemma demo_schedule_run:
  "sys_run demo_collab demo_optr demo_schedule (sys_init 2) =
     Some \<lparr>sys_queue = wq_empty\<lparr>wq_dirty := {workQueueKey}, wq_processing := {workQueueKey}\<rparr>,
           sys_workers = [Handled workQueueKey, Idle]\<rparr>"
  by (simp add: demo_schedule_def sys_init_def notify_def New_handlers_def eventHandler_def
        handleErr_def call_defs demo_defs numeral_2_eq_2 const_upd)

theorem single_flight_and_coalescing_witness:
  "holders workQueueKey (the (sys_run demo_collab demo_optr demo_schedule (sys_init 2))) = 1
   \<and> count_list
        (wq_items (sys_queue (the (sys_run demo_collab demo_optr demo_schedule (sys_init 2)))))
        workQueueKey = 0"
  using single_flight_and_coalescing [OF demo_optr_queue leaves_queue_demo demo_schedule_run]
  by (simp add: demo_schedule_run holders_def holds_def wq_empty_def)

subsection \<open>Failures in a row\<close>

lemma attempt_below_limit:
  assumes "queue optr = workqueue_interface ceiling"
    and "syncHandler optr = (\<lambda>k w. (Returns (Some e), w))" and "leaves_queue c"
    and "n < 15"
  shows "processNextWorkItem c optr (start (retrying k n)) =
     (Returned True,
      \<lparr>world =
         \<lparr>wq_items = [], wq_dirty = {}, wq_processing = {}, wq_shuttingDown = False,
          wq_failures = (\<lambda>x. 0)(k := Suc n), wq_waiting = [(k, backoff ceiling n)]\<rparr>,
       trace =
         [QueueGet k False, CallSyncHandler k (Returns (Some e)), QueueNumRequeues k (int n),
          Glog 2 (ErrorSyncing k e), QueueAddRateLimited k, QueueDone k]\<rparr>)"
  using assms
  by (simp add: processNextWorkItem_def call_syncHandler_def handleErr_def call_defs
        workqueue_interface_def start_def retrying_def maxRetries_def
        wq_Get_def wq_Done_def wq_NumRequeues_def wq_AddRateLimited_def)

lemma attempt_at_limit:
  assumes "queue optr = workqueue_interface ceiling"
    and "syncHandler optr = (\<lambda>k w. (Returns (Some e), w))" and "leaves_queue c"
    and "15 \<le> n"
  shows "world (snd (processNextWorkItem c optr (start (retrying k n)))) =
       \<lparr>wq_items = [], wq_dirty = {}, wq_processing = {}, wq_shuttingDown = False,
        wq_failures = (\<lambda>x. 0), wq_waiting = []\<rparr>"
    and "\<exists>r. trace (snd (processNextWorkItem c optr (start (retrying k n)))) =
       [QueueGet k False, CallSyncHandler k (Returns (Some e)), QueueNumRequeues k (int n),
        CallSyncDegradedStatus (Some e) r, CallHandleError r,
        Glog 2 (DroppingOperator k r), QueueForget k, QueueDone k]"
  using assms
  by (simp_all add: processNextWorkItem_def call_syncHandler_def handleErr_def call_defs
        workqueue_interface_def start_def retrying_def maxRetries_def leaves_queue_def
        wq_Get_def wq_Done_def wq_NumRequeues_def wq_Forget_def split_def Let_def const_upd)

lemma elapse_scheduled:
  "elapse \<lparr>wq_items = [], wq_dirty = {}, wq_processing = {}, wq_shuttingDown = False,
           wq_failures = f, wq_waiting = [(k, d)]\<rparr> =
     \<lparr>wq_items = [k], wq_dirty = {k}, wq_processing = {}, wq_shuttingDown = False,
      wq_failures = f, wq_waiting = []\<rparr>"
  by (simp add: elapse_def wq_fire_def wq_Add_def)

lemma failed_attempts_retrying:
  assumes "queue optr = workqueue_interface ceiling"
    and "syncHandler optr = (\<lambda>k w. (Returns (Some e), w))" and "leaves_queue c"
  shows "n \<le> 15 \<Longrightarrow> failed_attempts n c optr (wq_Add k wq_empty) = retrying k n"
proof (induction n)
  case 0
  then show ?case by (simp add: wq_Add_def wq_empty_def retrying_def const_upd)
next
  case (Suc n)
  then have "failed_attempts n c optr (wq_Add k wq_empty) = retrying k n" and "n < 15"
    by simp_all
  then show ?case
    by (simp add: attempt_below_limit [OF assms] elapse_scheduled) (simp add: retrying_def)
qed


lemma retrying_fields:
  "wq_items (retrying k n) = [k]" "wq_failures (retrying k n) k = n"
  "wq_waiting (retrying k n) = []"
  by (simp_all add: retrying_def)

lemma failing_optr_facts:
  "queue failing_optr = workqueue_interface 1000000"
  "syncHandler failing_optr = (\<lambda>k w. (Returns (Some (Opaque ''timeout'')), w))"
  by (simp_all add: failing_optr_def demo_optr_def)

text \<open>
  C7, as the code has it. On the retry queue of the spec, a key whose sync keeps failing is
  re-enqueued after its \<open>n\<close>-th consecutive failed attempt, counted from 0 and for \<open>n\<close> below
  15, with a backoff delay of \<open>5ms * 2 ^ n\<close>, capped at the ceiling. The attempt that fails
  when the key has been requeued 15 times, the sixteenth failure in a row, is not
  re-enqueued: the key is forgotten, nothing is pending or scheduled for it afterwards, and
  a worker finds nothing to do until a new \<open>Add\<close>.
\<close>

theorem backoff_schedule:
  assumes "queue optr = workqueue_interface ceiling"
    and "syncHandler optr = (\<lambda>k w. (Returns (Some e), w))" and "leaves_queue c"
  shows "(\<forall>n<15.
        wq_waiting (world (snd (processNextWorkItem c optr
           (start (failed_attempts n c optr (wq_Add k wq_empty)))))) =
          [(k, min (5 * 2 ^ n) ceiling)])
     \<and> QueueForget k \<in> set (trace (snd (processNextWorkItem c optr
           (start (failed_attempts 15 c optr (wq_Add k wq_empty))))))
     \<and> QueueAddRateLimited k \<notin> set (trace (snd (processNextWorkItem c optr
           (start (failed_attempts 15 c optr (wq_Add k wq_empty))))))
     \<and> wq_items (failed_attempts 16 c optr (wq_Add k wq_empty)) = []
     \<and> wq_waiting (failed_attempts 16 c optr (wq_Add k wq_empty)) = []
     \<and> wq_failures (failed_attempts 16 c optr (wq_Add k wq_empty)) k = 0
     \<and> processNextWorkItem c optr (start (failed_attempts 16 c optr (wq_Add k wq_empty))) =
         (Blocked, start (failed_attempts 16 c optr (wq_Add k wq_empty)))"
proof -
  let ?q0 = "wq_Add k wq_empty"
  let ?gone = "\<lparr>wq_items = [], wq_dirty = {}, wq_processing = {}, wq_shuttingDown = False,
      wq_failures = (\<lambda>x. 0), wq_waiting = []\<rparr>"
  have below: "wq_waiting (world (snd (processNextWorkItem c optr
      (start (failed_attempts n c optr ?q0))))) = [(k, min (5 * 2 ^ n) ceiling)]"
    if "n < 15" for n
    using that
    by (simp add: failed_attempts_retrying [OF assms] attempt_below_limit [OF assms]
          backoff_def baseDelay_def)
  have q15: "failed_attempts 15 c optr ?q0 = retrying k 15"
    by (simp add: failed_attempts_retrying [OF assms])
  obtain r where tr: "trace (snd (processNextWorkItem c optr (start (retrying k 15)))) =
       [QueueGet k False, CallSyncHandler k (Returns (Some e)), QueueNumRequeues k 15,
        CallSyncDegradedStatus (Some e) r, CallHandleError r,
        Glog 2 (DroppingOperator k r), QueueForget k, QueueDone k]"
    using attempt_at_limit(2) [OF assms, of 15 k] by auto
  have "failed_attempts (Suc 15) c optr ?q0 =
      elapse (world (snd (processNextWorkItem c optr (start (failed_attempts 15 c optr ?q0)))))"
    by (simp only: failed_attempts.simps)
  then have q16: "failed_attempts 16 c optr ?q0 = ?gone"
    using attempt_at_limit(1) [OF assms, of 15 k]
    by (simp add: q15 elapse_def)
  have blocked: "processNextWorkItem c optr (start ?gone) = (Blocked, start ?gone)"
    using assms(1)
    by (simp add: processNextWorkItem_def queue_Get_def workqueue_interface_def wq_Get_def
          start_def)
  show ?thesis
    using below by (simp add: q15 tr q16 blocked)
qed

theorem backoff_schedule_witness:
  "wq_waiting (world (snd (processNextWorkItem demo_collab failing_optr
      (start (failed_attempts 14 demo_collab failing_optr (wq_Add workQueueKey wq_empty))))))
     = [(workQueueKey, 81920)]
   \<and> wq_items (failed_attempts 16 demo_collab failing_optr (wq_Add workQueueKey wq_empty)) = []
   \<and> wq_waiting (failed_attempts 16 demo_collab failing_optr (wq_Add workQueueKey wq_empty))
     = []"
  using backoff_schedule [OF failing_optr_facts leaves_queue_demo, of workQueueKey,
          THEN conjunct1, rule_format, of 14]
        backoff_schedule [OF failing_optr_facts leaves_queue_demo, of workQueueKey]
  by simp

text \<open>
  C7 as the claim words it has the key forgotten after the 15th failure. After fifteen
  failures in a row the key is pending again with a requeue count of 15: the fifteenth failed
  attempt called \<open>AddRateLimited\<close>, not \<open>Forget\<close>.
\<close>

theorem forgotten_after_fifteen_failures_counterexample:
  "wq_items (failed_attempts 15 demo_collab failing_optr (wq_Add workQueueKey wq_empty))
     = [workQueueKey]
   \<and> wq_failures (failed_attempts 15 demo_collab failing_optr (wq_Add workQueueKey wq_empty))
       workQueueKey = 15
   \<and> QueueForget workQueueKey \<notin> set (trace (snd (processNextWorkItem demo_collab failing_optr
       (start (failed_attempts 14 demo_collab failing_optr (wq_Add workQueueKey wq_empty))))))
   \<and> QueueAddRateLimited workQueueKey \<in> set (trace (snd (processNextWorkItem demo_collab
       failing_optr
       (start (failed_attempts 14 demo_collab failing_optr (wq_Add workQueueKey wq_empty))))))"
  by (simp add: failed_attempts_retrying [OF failing_optr_facts leaves_queue_demo]
        attempt_below_limit [OF failing_optr_facts leaves_queue_demo] retrying_fields)

end
